theory Spec2Isabelle
  imports Complex_Main "HOL-Library.Log_Nat"
begin

section \<open>Strings and numbers of the host language\<close>

text \<open>
  Strings are lists of characters. \<open>String.prototype.toLowerCase\<close> is modelled on the ASCII
  letters; every other character is left as it is (no character outside ASCII lowercases to
  one of the letters the file classification compares with).
\<close>

definition toLowerCase_char :: "char \<Rightarrow> char" where
  "toLowerCase_char c =
     (case map_of (zip ''ABCDEFGHIJKLMNOPQRSTUVWXYZ'' ''abcdefghijklmnopqrstuvwxyz'') c of
        None \<Rightarrow> c
      | Some l \<Rightarrow> l)"

definition toLowerCase :: "string \<Rightarrow> string" where
  "toLowerCase s = map toLowerCase_char s"

text \<open>
  \<open>s.split(sep)\<close> for a one-character separator: the pieces between the separators, in
  order; the result is never empty (\<open>''''.split('.')\<close> is \<open>['''']\<close>).
\<close>

fun split :: "char \<Rightarrow> string \<Rightarrow> string list" where
  "split sep [] = [[]]"
| "split sep (c # cs) =
     (if c = sep then [] # split sep cs
      else (case split sep cs of [] \<Rightarrow> [[c]] | w # ws \<Rightarrow> (c # w) # ws))"

text \<open>\<open>Array.prototype.pop\<close>, read for its result: the last element, \<open>undefined\<close> on \<open>[]\<close>.\<close>

definition pop :: "'a list \<Rightarrow> 'a option" where
  "pop xs = (if xs = [] then None else Some (last xs))"

text \<open>A value interpolated into a template literal: \<open>undefined\<close> prints as its name.\<close>

definition interpolate :: "string option \<Rightarrow> string" where
  "interpolate v = (case v of None \<Rightarrow> ''undefined'' | Some s \<Rightarrow> s)"

text \<open>The decimal digits of a natural number, as \<open>Date.now()\<close> prints in a template literal.\<close>

fun digits :: "nat \<Rightarrow> string" where
  "digits n =
     (if n < 10 then [''0123456789'' ! n]
      else digits (n div 10) @ [''0123456789'' ! (n mod 10)])"

declare digits.simps [simp del]

text \<open>
  Numbers. The counters of this program (\<open>upvotes\<close>, \<open>rating_sum\<close>, \<open>rating_count\<close>,
  \<open>rating\<close>) are values of 32-bit \<open>integer\<close> columns (\<open>int32\<close>), on which the host
  language's addition is exact; they are modelled as \<open>int\<close>. A quotient is a binary64 floating-point number:
  the exact quotient rounded to 53 significant bits, ties to even. \<open>binary64\<close> is that
  rounding on the normal range (magnitudes from \<open>2 ^ -1022\<close> up to \<open>2 ^ 1024\<close>), which
  holds every quotient of two such counters.
\<close>

definition int32 :: "int \<Rightarrow> bool" where
  "int32 n = (- (2 ^ 31) \<le> n \<and> n < 2 ^ 31)"

definition pow2 :: "int \<Rightarrow> rat" where
  "pow2 e = (if 0 \<le> e then 2 ^ nat e else 1 / 2 ^ nat (- e))"

definition ilog2 :: "rat \<Rightarrow> int" where
  "ilog2 a =
     (let d = bitlen (fst (quotient_of a)) - bitlen (snd (quotient_of a))
      in if pow2 d \<le> a then d else d - 1)"

definition round_half_even :: "rat \<Rightarrow> int" where
  "round_half_even y =
     (let f = \<lfloor>y\<rfloor>; d = y - of_int f
      in if d < 1 / 2 then f
         else if 1 / 2 < d then f + 1
         else if even f then f else f + 1)"

definition binary64 :: "rat \<Rightarrow> rat" where
  "binary64 x =
     (if x = 0 then 0
      else let e = ilog2 \<bar>x\<bar> - 52
           in sgn x * of_int (round_half_even (\<bar>x\<bar> / pow2 e)) * pow2 e)"

definition js_divide :: "int \<Rightarrow> int \<Rightarrow> rat" where
  "js_divide a b = binary64 (of_int a / of_int b)"

text \<open>
  \<open>Number.prototype.toFixed(1)\<close> for a number below \<open>10 ^ 21\<close> in magnitude: with \<open>n\<close> the
  integer for which \<open>n / 10\<close> is nearest to the magnitude (the larger one of two), the text is
  the sign, the digits of \<open>n\<close> before the last, a point, and the last digit of \<open>n\<close>.
\<close>

definition toFixed1_n :: "rat \<Rightarrow> nat" where
  "toFixed1_n x = nat \<lfloor>\<bar>x\<bar> * 10 + 1 / 2\<rfloor>"

definition toFixed1 :: "rat \<Rightarrow> string" where
  "toFixed1 x =
     (if x < 0 then ''-'' else '''') @
     digits (toFixed1_n x div 10) @ ''.'' @ digits (toFixed1_n x mod 10)"

section \<open>File names and storage keys (lib/storage.ts)\<close>

datatype file_type = Image | Pdf | Link

definition getFileType :: "string \<Rightarrow> file_type" where
  "getFileType fileName =
     (let ext = (case pop (split CHR ''.'' fileName) of
                   None \<Rightarrow> ''''
                 | Some e \<Rightarrow> (if toLowerCase e = '''' then '''' else toLowerCase e))
      in if ext \<in> set [''jpg'', ''jpeg'', ''png'', ''gif'', ''webp''] then Image
         else if ext = ''pdf'' then Pdf
         else Link)"

text \<open>The text a \<open>file_type\<close> is at run time (a union of string literals).\<close>

fun file_type_text :: "file_type \<Rightarrow> string" where
  "file_type_text Image = ''image''"
| "file_type_text Pdf = ''pdf''"
| "file_type_text Link = ''link''"

text \<open>The object key \<open>uploadPortfolioFile\<close> stores a file under, at clock reading \<open>now\<close>.\<close>

definition upload_fileName :: "string \<Rightarrow> nat \<Rightarrow> string \<Rightarrow> string" where
  "upload_fileName userId now name =
     userId @ ''-'' @ digits now @ ''.'' @ interpolate (pop (split CHR ''.'' name))"

definition upload_filePath :: "string \<Rightarrow> nat \<Rightarrow> string \<Rightarrow> string" where
  "upload_filePath userId now name = userId @ ''/'' @ upload_fileName userId now name"

text \<open>The object key \<open>deletePortfolioFile\<close> removes.\<close>

definition delete_filePath :: "string \<Rightarrow> string \<Rightarrow> string" where
  "delete_filePath userId fileName = userId @ ''/'' @ fileName"

section \<open>Rows, requests and the backing services\<close>

text \<open>
  The rows of the tables the handlers write, with the columns the client sends or reads: a
  row keeps the form it was inserted from as one field, beside its id, its counters and
  its owner. Columns the database fills in and no handler reads (\<open>created_at\<close>,
  \<open>view_count\<close>, the joined \<open>profiles\<close>) are left out.
\<close>

datatype user = User (user_id: string)

record idea_form =
  form_title :: string
  form_genre :: string
  form_category :: string
  form_summary :: string
  form_tags :: "string list"

record game_idea =
  idea_id :: string
  idea_fields :: idea_form
  idea_upvotes :: int
  idea_creator_id :: string

record post_form =
  post_form_title :: string
  post_form_content :: string
  post_form_category :: string

record media_post =
  post_id :: string
  post_fields :: post_form
  post_upvotes :: int
  post_author_id :: string

record event_form =
  event_form_title :: string
  event_form_description :: string
  event_form_event_type :: string
  event_form_location :: string
  event_form_is_online :: bool
  event_form_event_date :: string
  event_form_registration_url :: string
  event_form_tags :: "string list"

record event =
  event_id :: string
  event_fields :: event_form
  event_organizer_id :: string

record project_form =
  project_form_title :: string
  project_form_description :: string
  project_form_stage :: string

record project =
  project_id :: string
  project_fields :: project_form
  rating_sum :: int
  rating_count :: int
  project_creator_id :: string

record feedback =
  feedback_project_id :: string
  feedback_user_id :: string
  feedback_content :: string
  feedback_rating :: int

text \<open>
  \<open>portfolioFormData\<close>. The three file fields are strings by declaration, but the reset
  after a save leaves them out, so each can be \<open>undefined\<close> (\<open>None\<close>).
\<close>

record portfolio_form =
  title :: string
  description :: string
  image_url :: string
  file_url :: "string option"
  file_type :: "string option"
  file_name :: "string option"
  tags :: "string list"

record portfolio_item =
  item_id :: string
  item_fields :: portfolio_form
  item_user_id :: string

record profile =
  profile_id :: string
  bio :: string

text \<open>The tables of the database and the keys of the objects in bucket \<open>portfolio_uploads\<close>.\<close>

record store =
  game_ideas_table :: "game_idea list"
  media_posts_table :: "media_post list"
  events_table :: "event list"
  projects_table :: "project list"
  project_feedback_table :: "feedback list"
  portfolio_items_table :: "portfolio_item list"
  profiles_table :: "profile list"
  portfolio_uploads :: "string list"

text \<open>Every round trip the client makes to the database or to object storage.\<close>

datatype request =
    SelectGameIdeas
  | SelectMediaPosts
  | SelectEvents
  | SelectProjects
  | SelectPortfolioItems string
  | InsertGameIdea idea_form string
  | InsertMediaPost post_form string
  | InsertEvent event_form string
  | InsertProject project_form string
  | InsertFeedback feedback
  | InsertPortfolioItem portfolio_form string
  | UpdateIdeaUpvotes string int
  | UpdatePostUpvotes string int
  | UpdateRating string int int
  | UpdateProfileBio string string
  | UpdatePortfolioItem string portfolio_form
  | DeletePortfolioItem string
  | StorageUpload string
  | StorageRemove "string list"

fun is_write :: "request \<Rightarrow> bool" where
  "is_write SelectGameIdeas = False"
| "is_write SelectMediaPosts = False"
| "is_write SelectEvents = False"
| "is_write SelectProjects = False"
| "is_write (SelectPortfolioItems u) = False"
| "is_write q = True"

text \<open>
  The services are outside the client. What they decide about a request is a parameter of
  the model: \<open>Applied\<close> (carried out, no error), \<open>Refused\<close> (an error comes back: transport
  failure, a violated constraint or insert policy) or \<open>Ignored\<close> (no error and no effect, as
  for an update or delete whose rows a row-level policy hides). They also choose the \<open>id\<close> of
  an inserted row and the public URL of a key.
\<close>

datatype verdict = Applied | Refused | Ignored

record server =
  verdict :: "request \<Rightarrow> verdict"
  gen_random_uuid :: "store \<Rightarrow> string"
  publicUrl :: "string \<Rightarrow> string"

text \<open>The constraint of column \<open>project_feedback.rating\<close> in the schema.\<close>

definition rating_check :: "feedback \<Rightarrow> bool" where
  "rating_check f = (1 \<le> feedback_rating f \<and> feedback_rating f \<le> 5)"

text \<open>
  The effect of an applied request on the store. An insert appends the row with the
  column defaults of the schema (\<open>upvotes\<close>, \<open>rating_sum\<close>, \<open>rating_count\<close> default to 0); an
  update or delete \<open>.eq('id', x)\<close> touches every row whose id is \<open>x\<close>; an upload with
  \<open>upsert: false\<close> fails (\<open>None\<close>) on a key that exists.
\<close>

fun apply_request :: "server \<Rightarrow> request \<Rightarrow> store \<Rightarrow> store option" where
  "apply_request srv (InsertGameIdea f u) s =
     Some (s\<lparr>game_ideas_table := game_ideas_table s @
       [\<lparr>idea_id = gen_random_uuid srv s, idea_fields = f, idea_upvotes = 0,
         idea_creator_id = u\<rparr>]\<rparr>)"
| "apply_request srv (InsertMediaPost f u) s =
     Some (s\<lparr>media_posts_table := media_posts_table s @
       [\<lparr>post_id = gen_random_uuid srv s, post_fields = f, post_upvotes = 0,
         post_author_id = u\<rparr>]\<rparr>)"
| "apply_request srv (InsertEvent f u) s =
     Some (s\<lparr>events_table := events_table s @
       [\<lparr>event_id = gen_random_uuid srv s, event_fields = f, event_organizer_id = u\<rparr>]\<rparr>)"
| "apply_request srv (InsertProject f u) s =
     Some (s\<lparr>projects_table := projects_table s @
       [\<lparr>project_id = gen_random_uuid srv s, project_fields = f, rating_sum = 0,
         rating_count = 0, project_creator_id = u\<rparr>]\<rparr>)"
| "apply_request srv (InsertFeedback f) s =
     Some (s\<lparr>project_feedback_table := project_feedback_table s @ [f]\<rparr>)"
| "apply_request srv (InsertPortfolioItem f u) s =
     Some (s\<lparr>portfolio_items_table := portfolio_items_table s @
       [\<lparr>item_id = gen_random_uuid srv s, item_fields = f, item_user_id = u\<rparr>]\<rparr>)"
| "apply_request srv (UpdateIdeaUpvotes i n) s =
     Some (s\<lparr>game_ideas_table :=
       map (\<lambda>r. if idea_id r = i then r\<lparr>idea_upvotes := n\<rparr> else r) (game_ideas_table s)\<rparr>)"
| "apply_request srv (UpdatePostUpvotes i n) s =
     Some (s\<lparr>media_posts_table :=
       map (\<lambda>r. if post_id r = i then r\<lparr>post_upvotes := n\<rparr> else r) (media_posts_table s)\<rparr>)"
| "apply_request srv (UpdateRating i rs rc) s =
     Some (s\<lparr>projects_table :=
       map (\<lambda>r. if project_id r = i then r\<lparr>rating_sum := rs, rating_count := rc\<rparr> else r)
         (projects_table s)\<rparr>)"
| "apply_request srv (UpdateProfileBio i b) s =
     Some (s\<lparr>profiles_table :=
       map (\<lambda>r. if profile_id r = i then r\<lparr>bio := b\<rparr> else r) (profiles_table s)\<rparr>)"
| "apply_request srv (UpdatePortfolioItem i f) s =
     Some (s\<lparr>portfolio_items_table :=
       map (\<lambda>r. if item_id r = i then r\<lparr>item_fields := f\<rparr> else r) (portfolio_items_table s)\<rparr>)"
| "apply_request srv (DeletePortfolioItem i) s =
     Some (s\<lparr>portfolio_items_table := filter (\<lambda>r. item_id r \<noteq> i) (portfolio_items_table s)\<rparr>)"
| "apply_request srv (StorageUpload k) s =
     (if k \<in> set (portfolio_uploads s) then None
      else Some (s\<lparr>portfolio_uploads := portfolio_uploads s @ [k]\<rparr>))"
| "apply_request srv (StorageRemove ks) s =
     Some (s\<lparr>portfolio_uploads := filter (\<lambda>k. k \<notin> set ks) (portfolio_uploads s)\<rparr>)"
| "apply_request srv q s = Some s"

text \<open>
  The world a handler runs in: the store, the round trips made so far and the lines written
  to the console. \<open>send\<close> makes one round trip and returns whether an error came back.
\<close>

record world =
  store :: store
  requests :: "request list"
  console :: "string list"

datatype response = Ok | Error

definition send :: "server \<Rightarrow> request \<Rightarrow> world \<Rightarrow> response \<times> world" where
  "send srv q w =
     (let w1 = w\<lparr>requests := requests w @ [q]\<rparr>
      in case verdict srv q of
           Refused \<Rightarrow> (Error, w1)
         | Ignored \<Rightarrow> (Ok, w1)
         | Applied \<Rightarrow>
             (case apply_request srv q (store w) of
                None \<Rightarrow> (Error, w1)
              | Some s \<Rightarrow> (Ok, w1\<lparr>store := s\<rparr>)))"

definition console_error :: "string \<Rightarrow> world \<Rightarrow> world" where
  "console_error msg w = w\<lparr>console := console w @ [msg]\<rparr>"

section \<open>The components and their handlers\<close>

text \<open>
  A component is its state variables; a handler takes the services, the signed-in user of
  the authentication context (\<open>None\<close> when there is none), its arguments, and the
  component state with the world, and returns both as it leaves them. State variables that
  several components name alike (\<open>loading\<close>, \<open>showForm\<close>, \<open>formData\<close>) carry the component's
  name in front, and so do the handlers \<open>handleSubmit\<close> and \<open>handleUpvote\<close> outside IdeasHub.
\<close>

definition truthy :: "string option \<Rightarrow> bool" where
  "truthy v = (case v of None \<Rightarrow> False | Some s \<Rightarrow> s \<noteq> [])"

subsection \<open>IdeasHub\<close>

record ideas_hub =
  ideas :: "game_idea list"
  ideas_loading :: bool
  ideas_showForm :: bool
  selectedCategoryFilter :: string
  ideas_formData :: idea_form

definition loadIdeas :: "server \<Rightarrow> ideas_hub \<times> world \<Rightarrow> ideas_hub \<times> world" where
  "loadIdeas srv = (\<lambda>(st, w).
     case send srv SelectGameIdeas w of
       (Error, w1) \<Rightarrow> (st\<lparr>ideas_loading := False\<rparr>, console_error ''Error loading ideas:'' w1)
     | (Ok, w1) \<Rightarrow> (st\<lparr>ideas := game_ideas_table (store w1), ideas_loading := False\<rparr>, w1))"

definition handleSubmit ::
  "server \<Rightarrow> user option \<Rightarrow> ideas_hub \<times> world \<Rightarrow> ideas_hub \<times> world" where
  "handleSubmit srv user = (\<lambda>(st, w).
     case user of
       None \<Rightarrow> (st, w)
     | Some u \<Rightarrow>
         (case send srv (InsertGameIdea (ideas_formData st) (user_id u)) w of
            (Error, w1) \<Rightarrow> (st, console_error ''Error creating idea:'' w1)
          | (Ok, w1) \<Rightarrow>
              loadIdeas srv
                (st\<lparr>ideas_formData :=
                      \<lparr>form_title = [], form_genre = [], form_category = ''Story'',
                       form_summary = [], form_tags = []\<rparr>,
                    ideas_showForm := False\<rparr>, w1)))"

definition handleUpvote ::
  "server \<Rightarrow> user option \<Rightarrow> string \<Rightarrow> int \<Rightarrow> ideas_hub \<times> world \<Rightarrow> ideas_hub \<times> world" where
  "handleUpvote srv user ideaId currentUpvotes = (\<lambda>(st, w).
     case send srv (UpdateIdeaUpvotes ideaId (currentUpvotes + 1)) w of
       (Error, w1) \<Rightarrow> (st, console_error ''Error upvoting:'' w1)
     | (Ok, w1) \<Rightarrow> loadIdeas srv (st, w1))"

subsection \<open>CommunityMedia\<close>

record community_media =
  posts :: "media_post list"
  posts_loading :: bool
  posts_showForm :: bool
  selectedCategory :: string
  posts_formData :: post_form

definition loadPosts ::
  "server \<Rightarrow> community_media \<times> world \<Rightarrow> community_media \<times> world" where
  "loadPosts srv = (\<lambda>(st, w).
     case send srv SelectMediaPosts w of
       (Error, w1) \<Rightarrow> (st\<lparr>posts_loading := False\<rparr>, console_error ''Error loading posts:'' w1)
     | (Ok, w1) \<Rightarrow> (st\<lparr>posts := media_posts_table (store w1), posts_loading := False\<rparr>, w1))"

definition media_handleSubmit ::
  "server \<Rightarrow> user option \<Rightarrow> community_media \<times> world \<Rightarrow> community_media \<times> world" where
  "media_handleSubmit srv user = (\<lambda>(st, w).
     case user of
       None \<Rightarrow> (st, w)
     | Some u \<Rightarrow>
         (case send srv (InsertMediaPost (posts_formData st) (user_id u)) w of
            (Error, w1) \<Rightarrow> (st, console_error ''Error creating post:'' w1)
          | (Ok, w1) \<Rightarrow>
              loadPosts srv
                (st\<lparr>posts_formData :=
                      \<lparr>post_form_title = [], post_form_content = [],
                       post_form_category = ''Game News''\<rparr>,
                    posts_showForm := False\<rparr>, w1)))"

definition media_handleUpvote ::
  "server \<Rightarrow> user option \<Rightarrow> string \<Rightarrow> int \<Rightarrow> community_media \<times> world \<Rightarrow>
     community_media \<times> world" where
  "media_handleUpvote srv user postId currentUpvotes = (\<lambda>(st, w).
     case send srv (UpdatePostUpvotes postId (currentUpvotes + 1)) w of
       (Error, w1) \<Rightarrow> (st, console_error ''Error upvoting:'' w1)
     | (Ok, w1) \<Rightarrow> loadPosts srv (st, w1))"

subsection \<open>EventsSection\<close>

record events_section =
  events :: "event list"
  events_loading :: bool
  events_showForm :: bool
  events_formData :: event_form

definition loadEvents ::
  "server \<Rightarrow> events_section \<times> world \<Rightarrow> events_section \<times> world" where
  "loadEvents srv = (\<lambda>(st, w).
     case send srv SelectEvents w of
       (Error, w1) \<Rightarrow> (st\<lparr>events_loading := False\<rparr>, console_error ''Error loading events:'' w1)
     | (Ok, w1) \<Rightarrow> (st\<lparr>events := events_table (store w1), events_loading := False\<rparr>, w1))"

definition events_handleSubmit ::
  "server \<Rightarrow> user option \<Rightarrow> events_section \<times> world \<Rightarrow> events_section \<times> world" where
  "events_handleSubmit srv user = (\<lambda>(st, w).
     case user of
       None \<Rightarrow> (st, w)
     | Some u \<Rightarrow>
         (case send srv (InsertEvent (events_formData st) (user_id u)) w of
            (Error, w1) \<Rightarrow> (st, console_error ''Error creating event:'' w1)
          | (Ok, w1) \<Rightarrow>
              loadEvents srv
                (st\<lparr>events_formData :=
                      \<lparr>event_form_title = [], event_form_description = [],
                       event_form_event_type = ''Tournament'', event_form_location = [],
                       event_form_is_online = True, event_form_event_date = [],
                       event_form_registration_url = [], event_form_tags = []\<rparr>,
                    events_showForm := False\<rparr>, w1)))"

subsection \<open>CollaborationZone\<close>

record collaboration_zone =
  projects :: "project list"
  projects_loading :: bool
  showProjectForm :: bool
  selectedProject :: "string option"
  feedbackText :: string
  rating :: int
  projectFormData :: project_form

definition loadProjects ::
  "server \<Rightarrow> collaboration_zone \<times> world \<Rightarrow> collaboration_zone \<times> world" where
  "loadProjects srv = (\<lambda>(st, w).
     case send srv SelectProjects w of
       (Error, w1) \<Rightarrow>
         (st\<lparr>projects_loading := False\<rparr>, console_error ''Error loading projects:'' w1)
     | (Ok, w1) \<Rightarrow>
         (st\<lparr>projects := projects_table (store w1), projects_loading := False\<rparr>, w1))"

definition handleProjectSubmit ::
  "server \<Rightarrow> user option \<Rightarrow> collaboration_zone \<times> world \<Rightarrow> collaboration_zone \<times> world" where
  "handleProjectSubmit srv user = (\<lambda>(st, w).
     case user of
       None \<Rightarrow> (st, w)
     | Some u \<Rightarrow>
         (case send srv (InsertProject (projectFormData st) (user_id u)) w of
            (Error, w1) \<Rightarrow> (st, console_error ''Error creating project:'' w1)
          | (Ok, w1) \<Rightarrow>
              loadProjects srv
                (st\<lparr>projectFormData :=
                      \<lparr>project_form_title = [], project_form_description = [],
                       project_form_stage = ''Idea''\<rparr>,
                    showProjectForm := False\<rparr>, w1)))"

text \<open>
  \<open>handleFeedbackSubmit\<close>: the feedback row is inserted first; the project is then looked up
  in the component's own \<open>projects\<close> list, and the result of the update is not looked at.
\<close>

definition handleFeedbackSubmit ::
  "server \<Rightarrow> user option \<Rightarrow> collaboration_zone \<times> world \<Rightarrow> collaboration_zone \<times> world" where
  "handleFeedbackSubmit srv user = (\<lambda>(st, w).
     case user of
       None \<Rightarrow> (st, w)
     | Some u \<Rightarrow>
         if \<not> truthy (selectedProject st) then (st, w)
         else
           let sp = the (selectedProject st) in
           (case send srv
                   (InsertFeedback
                      \<lparr>feedback_project_id = sp, feedback_user_id = user_id u,
                       feedback_content = feedbackText st, feedback_rating = rating st\<rparr>) w of
              (Error, w1) \<Rightarrow> (st, console_error ''Error submitting feedback:'' w1)
            | (Ok, w1) \<Rightarrow>
                let w2 = (case find (\<lambda>p. project_id p = sp) (projects st) of
                            None \<Rightarrow> w1
                          | Some project \<Rightarrow>
                              snd (send srv
                                     (UpdateRating sp (rating_sum project + rating st)
                                        (rating_count project + 1)) w1))
                in loadProjects srv
                     (st\<lparr>feedbackText := [], rating := 5, selectedProject := None\<rparr>, w2)))"

datatype number_or_string = Number int | String string

definition getAverageRating :: "project \<Rightarrow> number_or_string" where
  "getAverageRating project =
     (if rating_count project = 0 then Number 0
      else String (toFixed1 (js_divide (rating_sum project) (rating_count project))))"

subsection \<open>Profile and the portfolio attachment (Profile.tsx, lib/storage.ts)\<close>

record js_file =
  name :: string

record profile_page =
  isEditing :: bool
  portfolioItems :: "portfolio_item list"
  showPortfolioForm :: bool
  editingItem :: "portfolio_item option"
  profileData_bio :: string
  portfolioFormData :: portfolio_form
  uploadingFile :: bool

text \<open>
  \<open>uploadPortfolioFile\<close> returns the public URL and \<open>file.name\<close>, or throws (\<open>None\<close>) when the
  upload fails; \<open>now\<close> is the reading of \<open>Date.now()\<close>.
\<close>

definition uploadPortfolioFile ::
  "server \<Rightarrow> nat \<Rightarrow> js_file \<Rightarrow> string \<Rightarrow> world \<Rightarrow> (string \<times> string) option \<times> world" where
  "uploadPortfolioFile srv now file userId w =
     (let filePath = upload_filePath userId now (name file)
      in case send srv (StorageUpload filePath) w of
           (Error, w1) \<Rightarrow> (None, w1)
         | (Ok, w1) \<Rightarrow> (Some (publicUrl srv filePath, name file), w1))"

text \<open>\<open>deletePortfolioFile\<close> throws (\<open>Error\<close>) when the removal fails.\<close>

definition deletePortfolioFile ::
  "server \<Rightarrow> string \<Rightarrow> string \<Rightarrow> world \<Rightarrow> response \<times> world" where
  "deletePortfolioFile srv userId fileName w =
     send srv (StorageRemove [delete_filePath userId fileName]) w"

definition loadPortfolioItems ::
  "server \<Rightarrow> user option \<Rightarrow> profile_page \<times> world \<Rightarrow> profile_page \<times> world" where
  "loadPortfolioItems srv user = (\<lambda>(st, w).
     case user of
       None \<Rightarrow> (st, w)
     | Some u \<Rightarrow>
         (case send srv (SelectPortfolioItems (user_id u)) w of
            (Error, w1) \<Rightarrow> (st, console_error ''Error loading portfolio:'' w1)
          | (Ok, w1) \<Rightarrow>
              (st\<lparr>portfolioItems :=
                    filter (\<lambda>r. item_user_id r = user_id u) (portfolio_items_table (store w1))\<rparr>,
               w1)))"

definition handleProfileUpdate ::
  "server \<Rightarrow> user option \<Rightarrow> profile_page \<times> world \<Rightarrow> profile_page \<times> world" where
  "handleProfileUpdate srv user = (\<lambda>(st, w).
     case user of
       None \<Rightarrow> (st, w)
     | Some u \<Rightarrow>
         (case send srv (UpdateProfileBio (user_id u) (profileData_bio st)) w of
            (Error, w1) \<Rightarrow> (st, console_error ''Error updating profile:'' w1)
          | (Ok, w1) \<Rightarrow> (st\<lparr>isEditing := False\<rparr>, w1)))"

definition handlePortfolioSubmit ::
  "server \<Rightarrow> user option \<Rightarrow> profile_page \<times> world \<Rightarrow> profile_page \<times> world" where
  "handlePortfolioSubmit srv user = (\<lambda>(st, w).
     case user of
       None \<Rightarrow> (st, w)
     | Some u \<Rightarrow>
         (case send srv
                 (case editingItem st of
                    Some item \<Rightarrow> UpdatePortfolioItem (item_id item) (portfolioFormData st)
                  | None \<Rightarrow> InsertPortfolioItem (portfolioFormData st) (user_id u)) w of
            (Error, w1) \<Rightarrow> (st, console_error ''Error saving portfolio item:'' w1)
          | (Ok, w1) \<Rightarrow>
              loadPortfolioItems srv user
                (st\<lparr>portfolioFormData :=
                      \<lparr>title = [], description = [], image_url = [], file_url = None,
                       file_type = None, file_name = None, tags = []\<rparr>,
                    editingItem := None, showPortfolioForm := False\<rparr>, w1)))"

definition handleDeletePortfolioItem ::
  "server \<Rightarrow> user option \<Rightarrow> string \<Rightarrow> profile_page \<times> world \<Rightarrow> profile_page \<times> world" where
  "handleDeletePortfolioItem srv user itemId = (\<lambda>(st, w).
     case send srv (DeletePortfolioItem itemId) w of
       (Error, w1) \<Rightarrow> (st, console_error ''Error deleting portfolio item:'' w1)
     | (Ok, w1) \<Rightarrow> loadPortfolioItems srv user (st, w1))"

text \<open>
  \<open>handleFileUpload\<close>: \<open>picked\<close> is \<open>e.target.files?.[0]\<close>, \<open>fileType\<close> the kind the upload
  control passes (\<open>'image'\<close> or \<open>'pdf'\<close>).
\<close>

definition handleFileUpload ::
  "server \<Rightarrow> user option \<Rightarrow> nat \<Rightarrow> js_file option \<Rightarrow> file_type \<Rightarrow> profile_page \<times> world \<Rightarrow>
     profile_page \<times> world" where
  "handleFileUpload srv user now picked fileType = (\<lambda>(st, w).
     case (picked, user) of
       (Some file, Some u) \<Rightarrow>
         (case uploadPortfolioFile srv now file (user_id u) w of
            (None, w1) \<Rightarrow>
              (st\<lparr>uploadingFile := False\<rparr>, console_error ''Error uploading file:'' w1)
          | (Some (url, fileName), w1) \<Rightarrow>
              (st\<lparr>portfolioFormData :=
                    (portfolioFormData st)
                      \<lparr>file_url := Some url, file_type := Some (file_type_text fileType),
                       file_name := Some fileName\<rparr>,
                  uploadingFile := False\<rparr>, w1))
     | _ \<Rightarrow> (st, w))"

text \<open>\<open>handleAddLink\<close>: \<open>entered\<close> is what \<open>prompt\<close> returns (\<open>None\<close> when dismissed).\<close>

definition handleAddLink :: "string option \<Rightarrow> profile_page \<Rightarrow> profile_page" where
  "handleAddLink entered st =
     (if truthy entered
      then st\<lparr>portfolioFormData :=
                (portfolioFormData st)
                  \<lparr>file_url := entered, file_type := Some ''link'', file_name := entered\<rparr>\<rparr>
      else st)"

definition handleClearFile ::
  "server \<Rightarrow> user option \<Rightarrow> profile_page \<times> world \<Rightarrow> profile_page \<times> world" where
  "handleClearFile srv user = (\<lambda>(st, w).
     let w1 =
       (case user of
          None \<Rightarrow> w
        | Some u \<Rightarrow>
            if truthy (file_name (portfolioFormData st)) \<and>
               file_type (portfolioFormData st) \<noteq> Some ''link''
            then (case deletePortfolioFile srv (user_id u)
                         (the (file_name (portfolioFormData st))) w of
                    (Error, w') \<Rightarrow> console_error ''Error deleting file:'' w'
                  | (Ok, w') \<Rightarrow> w')
            else w)
     in (st\<lparr>portfolioFormData :=
              (portfolioFormData st)\<lparr>file_url := Some [], file_type := Some [],
                                      file_name := Some []\<rparr>\<rparr>, w1))"

subsection \<open>The application shell (AppContent)\<close>

datatype screen =
    LoadingScreen
  | AuthScreen
  | ProfileScreen
  | IdeasHubScreen
  | CommunityMediaScreen
  | EventsSectionScreen
  | CollaborationZoneScreen

definition renderSection :: "string \<Rightarrow> screen" where
  "renderSection activeSection =
     (if activeSection = ''ideas'' then IdeasHubScreen
      else if activeSection = ''media'' then CommunityMediaScreen
      else if activeSection = ''events'' then EventsSectionScreen
      else if activeSection = ''collaboration'' then CollaborationZoneScreen
      else IdeasHubScreen)"

definition AppContent :: "user option \<Rightarrow> bool \<Rightarrow> string \<Rightarrow> bool \<Rightarrow> screen" where
  "AppContent user loading activeSection showProfile =
     (if loading then LoadingScreen
      else if user = None then AuthScreen
      else if showProfile then ProfileScreen
      else renderSection activeSection)"

section \<open>Reading a decimal text\<close>

text \<open>
  What the text of a number denotes: an optional minus sign, the digits before the point and
  the digits after it. It states what ``rounded to 1 decimal'' means for the text that
  \<open>getAverageRating\<close> returns: \<open>rounded_to_1_decimal q v\<close> holds when \<open>v\<close> has one decimal
  and no number with one decimal is nearer to \<open>q\<close> (on a tie, \<open>v\<close> is either neighbour).
\<close>

definition digit_value :: "char \<Rightarrow> nat" where
  "digit_value c =
     (case map_of (zip ''0123456789'' [0, 1, 2, 3, 4, 5, 6, 7, 8, 9]) c of
        None \<Rightarrow> 0
      | Some d \<Rightarrow> d)"

definition number_of_digits :: "string \<Rightarrow> nat" where
  "number_of_digits t = foldl (\<lambda>a c. 10 * a + digit_value c) 0 t"

definition decimal_value :: "string \<Rightarrow> rat" where
  "decimal_value t =
     (let negative = (take 1 t = ''-'');
          body = (if negative then drop 1 t else t);
          whole = takeWhile (\<lambda>c. c \<noteq> CHR ''.'') body;
          fraction = drop 1 (dropWhile (\<lambda>c. c \<noteq> CHR ''.'') body)
      in (if negative then - 1 else 1) *
         (of_nat (number_of_digits whole) +
          of_nat (number_of_digits fraction) / 10 ^ length fraction))"

definition rounded_to_1_decimal :: "rat \<Rightarrow> rat \<Rightarrow> bool" where
  "rounded_to_1_decimal q v = (of_int \<lfloor>v * 10\<rfloor> = v * 10 \<and> \<bar>v - q\<bar> \<le> 1 / 20)"

section \<open>Observations, initial states and sample services\<close>

text \<open>The row of a table with a given id, as a reader of the table finds it.\<close>

definition stored_idea :: "store \<Rightarrow> string \<Rightarrow> game_idea option" where
  "stored_idea s i = find (\<lambda>r. idea_id r = i) (game_ideas_table s)"


text \<open>The round trips a handler made: those of the world after it that the world before lacks.\<close>

definition issued :: "world \<Rightarrow> world \<Rightarrow> request list" where
  "issued w w' = drop (length (requests w)) (requests w')"

text \<open>The components as \<open>useState\<close> initialises them.\<close>

definition IdeasHub_initial :: ideas_hub where
  "IdeasHub_initial =
     \<lparr>ideas = [], ideas_loading = True, ideas_showForm = False,
      selectedCategoryFilter = ''All'',
      ideas_formData =
        \<lparr>form_title = [], form_genre = [], form_category = ''Story'', form_summary = [],
         form_tags = []\<rparr>\<rparr>"

definition CollaborationZone_initial :: collaboration_zone where
  "CollaborationZone_initial =
     \<lparr>projects = [], projects_loading = True, showProjectForm = False,
      selectedProject = None, feedbackText = [], rating = 5,
      projectFormData =
        \<lparr>project_form_title = [], project_form_description = [],
         project_form_stage = ''Idea''\<rparr>\<rparr>"

definition Profile_initial :: profile_page where
  "Profile_initial =
     \<lparr>isEditing = False, portfolioItems = [], showPortfolioForm = False, editingItem = None,
      profileData_bio = [],
      portfolioFormData =
        \<lparr>title = [], description = [], image_url = [], file_url = Some [],
         file_type = Some [], file_name = Some [], tags = []\<rparr>,
      uploadingFile = False\<rparr>"

definition empty_store :: store where
  "empty_store =
     \<lparr>game_ideas_table = [], media_posts_table = [], events_table = [], projects_table = [],
      project_feedback_table = [], portfolio_items_table = [], profiles_table = [],
      portfolio_uploads = []\<rparr>"

definition new_world :: "store \<Rightarrow> world" where
  "new_world s = \<lparr>store = s, requests = [], console = []\<rparr>"

text \<open>
  Two services for the examples: one that carries out every request, and one that also
  enforces the rating constraint of the schema on feedback rows.
\<close>

definition accepting :: server where
  "accepting =
     \<lparr>verdict = (\<lambda>q. Applied),
      gen_random_uuid = (\<lambda>s. ''row''),
      publicUrl = (\<lambda>k. ''https://storage/portfolio_uploads/'' @ k)\<rparr>"

definition schema_checked :: server where
  "schema_checked =
     \<lparr>verdict = (\<lambda>q. case q of
                       InsertFeedback f \<Rightarrow> if rating_check f then Applied else Refused
                     | _ \<Rightarrow> Applied),
      gen_random_uuid = (\<lambda>s. ''row''),
      publicUrl = (\<lambda>k. ''https://storage/portfolio_uploads/'' @ k)\<rparr>"

definition sample_idea :: game_idea where
  "sample_idea =
     \<lparr>idea_id = ''idea-1'',
      idea_fields =
        \<lparr>form_title = ''Maze'', form_genre = ''Puzzle'', form_category = ''Story'',
         form_summary = ''A maze'', form_tags = [''2D'']\<rparr>,
      idea_upvotes = 3, idea_creator_id = ''u1''\<rparr>"

definition sample_project :: project where
  "sample_project =
     \<lparr>project_id = ''p1'',
      project_fields =
        \<lparr>project_form_title = ''Maze'', project_form_description = ''A maze game'',
         project_form_stage = ''Idea''\<rparr>,
      rating_sum = 8, rating_count = 2, project_creator_id = ''u1''\<rparr>"

definition sample_item :: portfolio_item where
  "sample_item =
     \<lparr>item_id = ''item-1'',
      item_fields =
        \<lparr>title = ''Art'', description = ''Cover art'', image_url = [],
         file_url = Some ''https://storage/portfolio_uploads/u1/u1-1700000000000.png'',
         file_type = Some ''image'', file_name = Some ''art.png'', tags = [''Art'']\<rparr>,
      item_user_id = ''u1''\<rparr>"

text \<open>
  The feedback dialog open on project \<open>p1\<close> with a chosen rating, over a given fetched
  list; and worlds whose store holds the sample rows.
\<close>

definition feedback_dialog :: "project list \<Rightarrow> int \<Rightarrow> collaboration_zone" where
  "feedback_dialog fetched r =
     CollaborationZone_initial
       \<lparr>projects := fetched, projects_loading := False, selectedProject := Some ''p1'',
        feedbackText := ''Nice'', rating := r\<rparr>"

definition project_world :: world where
  "project_world = new_world (empty_store\<lparr>projects_table := [sample_project]\<rparr>)"

definition idea_world :: world where
  "idea_world = new_world (empty_store\<lparr>game_ideas_table := [sample_idea]\<rparr>)"

definition portfolio_world :: world where
  "portfolio_world =
     new_world
       (empty_store
          \<lparr>portfolio_items_table := [sample_item],
           portfolio_uploads := [''u1/u1-1700000000000.png'']\<rparr>)"

text \<open>
  One rating as the user gives it in the dialog: the project's button sets
  \<open>selectedProject\<close>, a star sets \<open>rating\<close>, the text area sets \<open>feedbackText\<close>, and the form
  is submitted.
\<close>

definition submitRating ::
  "server \<Rightarrow> user option \<Rightarrow> string \<Rightarrow> int \<Rightarrow> string \<Rightarrow> collaboration_zone \<times> world \<Rightarrow>
     collaboration_zone \<times> world" where
  "submitRating srv user projectId ratingValue text = (\<lambda>(st, w).
     handleFeedbackSubmit srv user
       (st\<lparr>selectedProject := Some projectId, rating := ratingValue, feedbackText := text\<rparr>,
        w))"

section \<open>Rounding: the quotient, its text and the nearest tenth\<close>

lemma pow2_pos: "0 < pow2 e"
  by (simp add: pow2_def)

lemma pow2_nat: "0 \<le> e \<Longrightarrow> pow2 e = 2 ^ nat e"
  by (simp add: pow2_def)

lemma pow2_Suc: "pow2 (e + 1) = 2 * pow2 e"
proof (cases "0 \<le> e")
  case True
  then show ?thesis by (simp add: pow2_def nat_add_distrib)
next
  case False
  then have "nat (- e) = Suc (nat (- (e + 1)))" by simp
  with False show ?thesis by (auto simp: pow2_def)
qed

lemma pow2_add_nat: "pow2 (e + int k) = 2 ^ k * pow2 e"
proof (induction k)
  case 0
  show ?case by simp
next
  case (Suc k)
  have "e + int (Suc k) = (e + int k) + 1" by simp
  then have "pow2 (e + int (Suc k)) = pow2 ((e + int k) + 1)" by (rule arg_cong)
  also have "\<dots> = 2 * pow2 (e + int k)" by (rule pow2_Suc)
  finally show ?case using Suc by simp
qed

lemma pow2_diff: "pow2 (a - b) = pow2 a / pow2 b"
proof (cases "b \<le> a")
  case True
  then have "a = b + int (nat (a - b))" by simp
  then have "pow2 a = 2 ^ nat (a - b) * pow2 b" by (metis pow2_add_nat)
  moreover have "pow2 (a - b) = 2 ^ nat (a - b)" using True by (simp add: pow2_def)
  ultimately show ?thesis using pow2_pos [of b] by simp
next
  case False
  then have "b = a + int (nat (b - a))" by simp
  then have "pow2 b = 2 ^ nat (b - a) * pow2 a" by (metis pow2_add_nat)
  moreover have "pow2 (a - b) = 1 / 2 ^ nat (b - a)" using False by (simp add: pow2_def)
  ultimately show ?thesis using pow2_pos [of a] by simp
qed

lemma ilog2_lower:
  assumes "0 < a"
  shows "pow2 (ilog2 a) \<le> a"
proof -
  define p where "p = fst (quotient_of a)"
  define q where "q = snd (quotient_of a)"
  have a: "a = of_int p / of_int q" and q: "0 < q"
    unfolding p_def q_def
    by (metis prod.collapse quotient_of_div) (metis prod.collapse quotient_of_denom_pos)
  from assms a q have p: "0 < p" by (simp add: zero_less_divide_iff)
  define d where "d = bitlen p - bitlen q"
  show ?thesis
  proof (cases "pow2 d \<le> a")
    case True
    then show ?thesis by (simp add: ilog2_def Let_def p_def q_def d_def)
  next
    case False
    have lo: "(2::int) ^ nat (bitlen p - 1) \<le> p" using bitlen_bounds [OF p] by simp
    have hi: "q < 2 ^ nat (bitlen q)" using bitlen_bounds [OF q] by simp
    have bp: "1 \<le> bitlen p" using p by (auto simp: bitlen_alt_def)
    have bq: "0 \<le> bitlen q" by (rule bitlen_nonneg)
    have "pow2 (d - 1) = pow2 (bitlen p - 1) / pow2 (bitlen q)"
      unfolding d_def using pow2_diff [of "bitlen p - 1" "bitlen q"] by (simp add: algebra_simps)
    also have "\<dots> = 2 ^ nat (bitlen p - 1) / 2 ^ nat (bitlen q)"
      using bp bq by (simp add: pow2_nat)
    also have "\<dots> \<le> of_int p / 2 ^ nat (bitlen q)"
    proof -
      have "(2::rat) ^ nat (bitlen p - 1) \<le> of_int p"
        using lo by (metis of_int_le_iff of_int_numeral of_int_power)
      then show ?thesis by (simp add: divide_right_mono)
    qed
    also have "\<dots> \<le> of_int p / of_int q"
    proof -
      have "(of_int q :: rat) \<le> 2 ^ nat (bitlen q)"
        using hi by (metis less_imp_le of_int_le_iff of_int_numeral of_int_power)
      moreover have "(0::rat) < of_int q" using q by simp
      moreover have "(0::rat) \<le> of_int p" using p by simp
      ultimately show ?thesis by (simp add: divide_left_mono)
    qed
    finally have "pow2 (d - 1) \<le> a" using a by simp
    with False show ?thesis by (simp add: ilog2_def Let_def p_def q_def d_def)
  qed
qed

lemma ilog2_upper:
  assumes "0 < a"
  shows "a < pow2 (ilog2 a + 1)"
proof -
  define p where "p = fst (quotient_of a)"
  define q where "q = snd (quotient_of a)"
  have a: "a = of_int p / of_int q" and q: "0 < q"
    unfolding p_def q_def
    by (metis prod.collapse quotient_of_div) (metis prod.collapse quotient_of_denom_pos)
  from assms a q have p: "0 < p" by (simp add: zero_less_divide_iff)
  define d where "d = bitlen p - bitlen q"
  show ?thesis
  proof (cases "pow2 d \<le> a")
    case False
    then show ?thesis by (simp add: ilog2_def Let_def p_def q_def d_def)
  next
    case True
    have hi: "p < 2 ^ nat (bitlen p)" using bitlen_bounds [OF p] by simp
    have lo: "(2::int) ^ nat (bitlen q - 1) \<le> q" using bitlen_bounds [OF q] by simp
    have bq: "1 \<le> bitlen q" using q by (auto simp: bitlen_alt_def)
    have bp: "0 \<le> bitlen p" by (rule bitlen_nonneg)
    have qpos: "(0::rat) < 2 ^ nat (bitlen q - 1)" by simp
    have "of_int p / of_int q \<le> of_int p / (2 ^ nat (bitlen q - 1) :: rat)"
    proof -
      have "(2::rat) ^ nat (bitlen q - 1) \<le> of_int q"
        using lo by (metis of_int_le_iff of_int_numeral of_int_power)
      moreover have "(0::rat) \<le> of_int p" using p by simp
      ultimately show ?thesis using qpos by (intro frac_le) simp_all
    qed
    also have "\<dots> < 2 ^ nat (bitlen p) / (2 ^ nat (bitlen q - 1) :: rat)"
    proof -
      have "(of_int p :: rat) < 2 ^ nat (bitlen p)"
        using hi by (metis of_int_less_iff of_int_numeral of_int_power)
      then show ?thesis using qpos by (simp add: divide_strict_right_mono)
    qed
    also have "\<dots> = pow2 (bitlen p) / pow2 (bitlen q - 1)"
      using bp bq by (simp add: pow2_nat)
    also have "\<dots> = pow2 (bitlen p - (bitlen q - 1))" by (simp add: pow2_diff)
    also have "bitlen p - (bitlen q - 1) = d + 1" by (simp add: d_def)
    finally have "a < pow2 (d + 1)" using a by simp
    with True show ?thesis by (simp add: ilog2_def Let_def p_def q_def d_def)
  qed
qed

lemma pow2_mono: "a \<le> b \<Longrightarrow> pow2 a \<le> pow2 b"
proof -
  assume "a \<le> b"
  then have "b = a + int (nat (b - a))" by simp
  then have "pow2 b = 2 ^ nat (b - a) * pow2 a" by (metis pow2_add_nat)
  moreover have "(1::rat) \<le> 2 ^ nat (b - a)" by simp
  ultimately show ?thesis using pow2_pos [of a] by (simp add: mult_le_cancel_right1)
qed

lemma ilog2_unique:
  assumes "pow2 l \<le> a" and "a < pow2 (l + 1)"
  shows "ilog2 a = l"
proof -
  have a: "0 < a" using assms(1) pow2_pos [of l] by simp
  have "\<not> l + 1 \<le> ilog2 a"
  proof
    assume "l + 1 \<le> ilog2 a"
    then have "pow2 (l + 1) \<le> pow2 (ilog2 a)" by (rule pow2_mono)
    with ilog2_lower [OF a] assms(2) show False by simp
  qed
  moreover have "\<not> ilog2 a + 1 \<le> l"
  proof
    assume "ilog2 a + 1 \<le> l"
    then have "pow2 (ilog2 a + 1) \<le> pow2 l" by (rule pow2_mono)
    with ilog2_upper [OF a] assms(1) show False by simp
  qed
  ultimately show ?thesis by simp
qed

lemma round_half_even_near: "\<bar>of_int (round_half_even y) - y\<bar> \<le> 1 / 2"
proof -
  have "of_int \<lfloor>y\<rfloor> \<le> y" "y < of_int \<lfloor>y\<rfloor> + 1" by linarith+
  then show ?thesis
    by (auto simp: round_half_even_def Let_def)
qed

lemma binary64_error:
  assumes "0 < x"
  shows "\<bar>binary64 x - x\<bar> \<le> x / 2 ^ 53"
proof -
  define e where "e = ilog2 x - 52"
  define m where "m = round_half_even (x / pow2 e)"
  have b: "binary64 x = of_int m * pow2 e"
    using assms by (simp add: binary64_def Let_def e_def m_def)
  have pe: "0 < pow2 e" by (rule pow2_pos)
  have "pow2 e = pow2 (ilog2 x) / pow2 52" unfolding e_def by (rule pow2_diff)
  also have "\<dots> = pow2 (ilog2 x) / 2 ^ 52" by (simp add: pow2_def)
  also have "\<dots> \<le> x / 2 ^ 52" using ilog2_lower [OF assms] by (simp add: divide_right_mono)
  finally have le: "pow2 e \<le> x / 2 ^ 52" .
  have "\<bar>of_int m - x / pow2 e\<bar> \<le> 1 / 2" unfolding m_def by (rule round_half_even_near)
  then have "\<bar>of_int m - x / pow2 e\<bar> * pow2 e \<le> 1 / 2 * pow2 e"
    using pe by (simp add: mult_right_mono)
  moreover have "\<bar>of_int m - x / pow2 e\<bar> * pow2 e = \<bar>of_int m * pow2 e - x\<bar>"
  proof -
    have "\<bar>of_int m - x / pow2 e\<bar> * pow2 e = \<bar>(of_int m - x / pow2 e) * pow2 e\<bar>"
      using pe by (simp add: abs_mult)
    also have "(of_int m - x / pow2 e) * pow2 e = of_int m * pow2 e - x"
      using pe by (simp add: algebra_simps)
    finally show ?thesis .
  qed
  ultimately have "\<bar>binary64 x - x\<bar> \<le> pow2 e / 2" using b by simp
  also have "\<dots> \<le> (x / 2 ^ 52) / 2" using le by simp
  also have "\<dots> = x / 2 ^ 53" by simp
  finally show ?thesis .
qed


lemma toFixed1_n_bounds:
  assumes "0 \<le> x"
  shows "of_nat (toFixed1_n x) - 1 / 2 \<le> x * 10" and "x * 10 < of_nat (toFixed1_n x) + 1 / 2"
proof -
  have nn: "0 \<le> \<lfloor>x * 10 + 1 / 2\<rfloor>" using assms by simp
  have "(of_nat (toFixed1_n x) :: rat) = of_int \<lfloor>x * 10 + 1 / 2\<rfloor>"
    using assms nn by (simp add: toFixed1_n_def)
  moreover have "of_int \<lfloor>x * 10 + 1 / 2\<rfloor> \<le> x * 10 + 1 / 2"
    "x * 10 + 1 / 2 < of_int \<lfloor>x * 10 + 1 / 2\<rfloor> + 1" by linarith+
  ultimately show "of_nat (toFixed1_n x) - 1 / 2 \<le> x * 10"
    and "x * 10 < of_nat (toFixed1_n x) + 1 / 2" by linarith+
qed

lemma binary64_nonneg: "0 \<le> x \<Longrightarrow> 0 \<le> binary64 x"
proof -
  assume x: "0 \<le> x"
  have "0 \<le> round_half_even y" if "0 \<le> y" for y
  proof -
    have "0 \<le> \<lfloor>y\<rfloor>" using that by simp
    then show ?thesis by (auto simp: round_half_even_def Let_def)
  qed
  then have "0 \<le> round_half_even (\<bar>x\<bar> / pow2 (ilog2 \<bar>x\<bar> - 52))"
    using pow2_pos [of "ilog2 \<bar>x\<bar> - 52"] by simp
  then show ?thesis
    using x pow2_pos [of "ilog2 \<bar>x\<bar> - 52"] by (auto simp: binary64_def Let_def sgn_if)
qed

lemma toFixed1_n_js_divide:
  assumes s: "0 \<le> s" "s \<le> 2 ^ 40" and c: "0 < c"
  shows "\<bar>of_nat (toFixed1_n (js_divide s c)) / 10 - of_int s / of_int c\<bar> \<le> (1 / 20 :: rat)"
proof -
  define q :: rat where "q = of_int s / of_int c"
  define x where "x = js_divide s c"
  define n where "n = int (toFixed1_n x)"
  have cq: "(0::rat) < of_int c" using c by simp
  have q0: "0 \<le> q" using s c by (simp add: q_def)
  have x0: "0 \<le> x" unfolding x_def js_divide_def using q0 binary64_nonneg by (simp add: q_def)
  have err: "\<bar>x - q\<bar> \<le> q / 2 ^ 53"
  proof (cases "q = 0")
    case True
    have "x = binary64 q" by (simp add: x_def js_divide_def q_def)
    with True have "x = 0" by (simp add: binary64_def)
    with True show ?thesis by simp
  next
    case False
    with q0 have "0 < q" by simp
    from binary64_error [OF this] show ?thesis by (simp add: x_def js_divide_def q_def)
  qed
  define r :: rat where "r = 1 / of_int c"
  have rc: "r * of_int c = 1" using cq by (simp add: r_def)
  define eps where "eps = q / 2 ^ 53"
  have e1: "q - x \<le> eps" and e2: "x - q \<le> eps"
    using err unfolding abs_le_iff eps_def by (simp_all only: minus_diff_eq)
  have lo: "of_int n - 1 / 2 \<le> x * 10" and hi: "x * 10 < of_int n + 1 / 2"
    using toFixed1_n_bounds [OF x0] by (simp_all add: n_def)
  have small: "20 * s < 2 ^ 53" using s by simp
  have qs: "q * of_int c = of_int s" using cq by (simp add: q_def)
  have up: "q * 10 \<le> of_int n + 1 / 2"
  proof (rule ccontr)
    assume "\<not> q * 10 \<le> of_int n + 1 / 2"
    then have "of_int n + 1 / 2 < q * 10" by simp
    then have "(of_int n + 1 / 2) * of_int c < q * 10 * of_int c"
      using cq by (simp add: mult_strict_right_mono)
    then have "(of_int ((2 * n + 1) * c) :: rat) < of_int (20 * s)"
      using qs by (simp add: algebra_simps)
    then have "(2 * n + 1) * c < 20 * s" by (simp only: of_int_less_iff)
    then have "(2 * n + 1) * c + 1 \<le> 20 * s" by simp
    then have "(of_int ((2 * n + 1) * c + 1) :: rat) \<le> of_int (20 * s)" by (simp only: of_int_le_iff)
    then have "(2 * of_int n + 1) * of_int c + 1 \<le> 20 * (q * of_int c)" by (simp add: qs)
    then have "((2 * of_int n + 1) + r) * of_int c \<le> (20 * q) * of_int c"
      using rc by (simp add: algebra_simps)
    then have "(2 * of_int n + 1) + r \<le> 20 * q"
      using cq by (simp only: mult_le_cancel_right_pos)
    moreover have "20 * x < 2 * of_int n + 1" using hi by simp
    ultimately have "r < 20 * (q - x)" by simp
    moreover have "20 * (q - x) \<le> 20 * eps" using e1 by simp
    ultimately have "r < 20 * eps" by (rule less_le_trans)
    then have "r < 20 * (q / 2 ^ 53)" by (simp only: eps_def)
    then have "r * of_int c < 20 * (q / 2 ^ 53) * of_int c"
      using cq by (simp only: mult_strict_right_mono)
    then have "(1::rat) < 20 * (q * of_int c) / 2 ^ 53" using rc by (simp add: algebra_simps)
    then have "(1::rat) < 20 * of_int s / 2 ^ 53" by (simp only: qs)
    then have "(2::rat) ^ 53 < of_int (20 * s)" by simp
    then have "(of_int (2 ^ 53) :: rat) < of_int (20 * s)" by simp
    then have "2 ^ 53 < 20 * s" by (simp only: of_int_less_iff)
    with small show False by simp
  qed
  have down: "of_int n - 1 / 2 \<le> q * 10"
  proof (rule ccontr)
    assume "\<not> of_int n - 1 / 2 \<le> q * 10"
    then have "q * 10 < of_int n - 1 / 2" by simp
    then have "q * 10 * of_int c < (of_int n - 1 / 2) * of_int c"
      using cq by (simp add: mult_strict_right_mono)
    then have "(of_int (20 * s) :: rat) < of_int ((2 * n - 1) * c)"
      using qs by (simp add: algebra_simps)
    then have "20 * s < (2 * n - 1) * c" by (simp only: of_int_less_iff)
    then have "20 * s + 1 \<le> (2 * n - 1) * c" by simp
    then have "(of_int (20 * s + 1) :: rat) \<le> of_int ((2 * n - 1) * c)" by (simp only: of_int_le_iff)
    then have "20 * (q * of_int c) + 1 \<le> (2 * of_int n - 1) * of_int c" by (simp add: qs)
    then have "(20 * q + r) * of_int c \<le> (2 * of_int n - 1) * of_int c"
      using rc by (simp add: algebra_simps)
    then have "20 * q + r \<le> 2 * of_int n - 1"
      using cq by (simp only: mult_le_cancel_right_pos)
    moreover have "2 * of_int n - 1 \<le> 20 * x" using lo by simp
    ultimately have "r \<le> 20 * (x - q)" by simp
    moreover have "20 * (x - q) \<le> 20 * eps" using e2 by simp
    ultimately have "r \<le> 20 * eps" by (rule order_trans)
    then have "r \<le> 20 * (q / 2 ^ 53)" by (simp only: eps_def)
    then have "r * of_int c \<le> 20 * (q / 2 ^ 53) * of_int c"
      using cq by (simp only: mult_right_mono less_imp_le)
    then have "(1::rat) \<le> 20 * (q * of_int c) / 2 ^ 53" using rc by (simp add: algebra_simps)
    then have "(1::rat) \<le> 20 * of_int s / 2 ^ 53" by (simp only: qs)
    then have "(2::rat) ^ 53 \<le> of_int (20 * s)" by simp
    then have "(of_int (2 ^ 53) :: rat) \<le> of_int (20 * s)" by simp
    then have "2 ^ 53 \<le> 20 * s" by (simp only: of_int_le_iff)
    with small show False by simp
  qed
  from up down have "\<bar>of_int n / 10 - q\<bar> \<le> 1 / 20" by linarith
  then show ?thesis by (simp add: n_def x_def q_def)
qed

lemma less_10_cases:
  "d < 10 \<Longrightarrow> d = 0 \<or> d = 1 \<or> d = 2 \<or> d = 3 \<or> d = 4 \<or> d = 5 \<or> d = 6 \<or> d = 7 \<or> d = 8 \<or> d = (9::nat)"
  by arith

lemma digit_value_nth: "d < 10 \<Longrightarrow> digit_value (''0123456789'' ! d) = d"
proof -
  assume "d < 10"
  from less_10_cases [OF this] show ?thesis
    by (elim disjE) (simp_all add: digit_value_def)
qed

lemma digit_nth_plain:
  "d < 10 \<Longrightarrow> ''0123456789'' ! d \<noteq> CHR ''.'' \<and> ''0123456789'' ! d \<noteq> CHR ''-''"
  by (drule less_10_cases) auto

lemma number_of_digits_snoc:
  "number_of_digits (t @ [c]) = 10 * number_of_digits t + digit_value c"
  by (simp add: number_of_digits_def)

lemma digits_small: "n < 10 \<Longrightarrow> digits n = [''0123456789'' ! n]"
  by (subst digits.simps) simp

lemma digits_large:
  "\<not> n < 10 \<Longrightarrow> digits n = digits (n div 10) @ [''0123456789'' ! (n mod 10)]"
  by (subst digits.simps) simp

lemma number_of_digits_digits: "number_of_digits (digits n) = n"
proof (induction n rule: digits.induct)
  case (1 n)
  show ?case
  proof (cases "n < 10")
    case True
    then show ?thesis
      by (simp add: digits_small number_of_digits_def digit_value_nth)
  next
    case False
    with 1 have "number_of_digits (digits (n div 10)) = n div 10" by simp
    with False show ?thesis
      by (simp add: digits_large number_of_digits_snoc digit_value_nth)
  qed
qed

lemma digits_plain: "\<forall>c \<in> set (digits n). c \<noteq> CHR ''.'' \<and> c \<noteq> CHR ''-''"
proof (induction n rule: digits.induct)
  case (1 n)
  show ?case
  proof (cases "n < 10")
    case True
    then show ?thesis using digit_nth_plain [of n] by (simp add: digits_small)
  next
    case False
    with 1 have "\<forall>c \<in> set (digits (n div 10)). c \<noteq> CHR ''.'' \<and> c \<noteq> CHR ''-''" by simp
    moreover have "n mod 10 < 10" by simp
    ultimately show ?thesis
      using False digit_nth_plain [of "n mod 10"] by (simp add: digits_large)
  qed
qed

lemma digits_nonempty: "digits n \<noteq> []"
  by (cases "n < 10") (simp_all add: digits_small digits_large)

lemma digits_length_1: "n < 10 \<Longrightarrow> length (digits n) = 1"
  by (simp add: digits_small)

lemma decimal_value_parts:
  assumes "take 1 t \<noteq> ''-''"
    and "takeWhile (\<lambda>c. c \<noteq> CHR ''.'') t = w"
    and "dropWhile (\<lambda>c. c \<noteq> CHR ''.'') t = CHR ''.'' # f"
  shows "decimal_value t = of_nat (number_of_digits w) + of_nat (number_of_digits f) / 10 ^ length f"
  using assms by (simp add: decimal_value_def Let_def)

lemma decimal_value_unsigned:
  assumes "b < 10"
  shows "decimal_value (digits a @ CHR ''.'' # digits b) = of_nat a + of_nat b / 10"
proof -
  let ?t = "digits a @ CHR ''.'' # digits b"
  obtain h r where hr: "digits a = h # r" using digits_nonempty [of a] by (cases "digits a") auto
  then have "h \<in> set (digits a)" by simp
  then have h: "h \<noteq> CHR ''-''" using digits_plain by blast
  have nn: "take 1 ?t \<noteq> ''-''" using hr h by simp
  have all: "\<forall>c \<in> set (digits a). c \<noteq> CHR ''.''" using digits_plain by blast
  have tw: "takeWhile (\<lambda>c. c \<noteq> CHR ''.'') ?t = digits a"
    using all by (simp add: takeWhile_append2)
  have dw: "dropWhile (\<lambda>c. c \<noteq> CHR ''.'') ?t = CHR ''.'' # digits b"
    using all by (simp add: dropWhile_append2)
  from decimal_value_parts [OF nn tw dw] assms show ?thesis
    by (simp add: number_of_digits_digits digits_length_1)
qed

lemma decimal_value_toFixed1:
  assumes "0 \<le> x"
  shows "decimal_value (toFixed1 x) = of_nat (toFixed1_n x) / 10"
proof -
  define n where "n = toFixed1_n x"
  have "(of_nat n :: rat) = of_nat (10 * (n div 10) + n mod 10)" by simp
  also have "\<dots> = 10 * of_nat (n div 10) + of_nat (n mod 10)"
    by (simp only: of_nat_add of_nat_mult of_nat_numeral)
  finally have split: "(of_nat n :: rat) = 10 * of_nat (n div 10) + of_nat (n mod 10)" .
  have "decimal_value (toFixed1 x) = of_nat (n div 10) + of_nat (n mod 10) / 10"
    using assms decimal_value_unsigned [of "n mod 10" "n div 10"]
    by (simp add: toFixed1_def n_def)
  also have "\<dots> = of_nat n / 10" by (simp only: split) (simp add: field_simps)
  finally show ?thesis by (simp add: n_def)
qed

lemma binary64_sgn: "binary64 x = sgn x * binary64 \<bar>x\<bar>"
  by (cases "x = 0") (simp_all add: binary64_def Let_def sgn_if)

lemma toFixed1_n_abs: "toFixed1_n (sgn y * x) = toFixed1_n x" if "y \<noteq> 0"
  using that by (simp add: toFixed1_n_def abs_mult sgn_if)

lemma decimal_value_minus:
  assumes "takeWhile (\<lambda>c. c \<noteq> CHR ''.'') t = w"
    and "dropWhile (\<lambda>c. c \<noteq> CHR ''.'') t = CHR ''.'' # f"
  shows "decimal_value (CHR ''-'' # t) =
    - (of_nat (number_of_digits w) + of_nat (number_of_digits f) / 10 ^ length f)"
  using assms by (simp add: decimal_value_def Let_def)

lemma decimal_value_signed:
  assumes "b < 10"
  shows "decimal_value (CHR ''-'' # digits a @ CHR ''.'' # digits b) = - (of_nat a + of_nat b / 10)"
proof -
  let ?t = "digits a @ CHR ''.'' # digits b"
  have all: "\<forall>c \<in> set (digits a). c \<noteq> CHR ''.''" using digits_plain by blast
  have tw: "takeWhile (\<lambda>c. c \<noteq> CHR ''.'') ?t = digits a"
    using all by (simp add: takeWhile_append2)
  have dw: "dropWhile (\<lambda>c. c \<noteq> CHR ''.'') ?t = CHR ''.'' # digits b"
    using all by (simp add: dropWhile_append2)
  from decimal_value_minus [OF tw dw] assms show ?thesis
    by (simp add: number_of_digits_digits digits_length_1)
qed

lemma decimal_value_toFixed1_neg:
  assumes "x < 0"
  shows "decimal_value (toFixed1 x) = - (of_nat (toFixed1_n x) / 10)"
proof -
  define n where "n = toFixed1_n x"
  have "(of_nat n :: rat) = of_nat (10 * (n div 10) + n mod 10)" by simp
  also have "\<dots> = 10 * of_nat (n div 10) + of_nat (n mod 10)"
    by (simp only: of_nat_add of_nat_mult of_nat_numeral)
  finally have split: "(of_nat n :: rat) = 10 * of_nat (n div 10) + of_nat (n mod 10)" .
  have "decimal_value (toFixed1 x) = - (of_nat (n div 10) + of_nat (n mod 10) / 10)"
    using assms decimal_value_signed [of "n mod 10" "n div 10"]
    by (simp add: toFixed1_def n_def)
  also have "\<dots> = - (of_nat n / 10)" by (simp only: split) (simp add: field_simps)
  finally show ?thesis by (simp add: n_def)
qed

lemma toFixed1_js_divide_rounded:
  assumes s: "\<bar>s\<bar> \<le> 2 ^ 40" and c: "c \<noteq> 0"
  shows "rounded_to_1_decimal (of_int s / of_int c) (decimal_value (toFixed1 (js_divide s c)))"
proof -
  define q :: rat where "q = of_int s / of_int c"
  define X where "X = js_divide \<bar>s\<bar> \<bar>c\<bar>"
  define N where "N = toFixed1_n X"
  define v where "v = decimal_value (toFixed1 (js_divide s c))"
  have aq: "\<bar>q\<bar> = of_int \<bar>s\<bar> / of_int \<bar>c\<bar>" by (simp add: q_def)
  have near: "\<bar>of_nat N / 10 - \<bar>q\<bar>\<bar> \<le> 1 / 20"
    unfolding N_def X_def aq using s c by (intro toFixed1_n_js_divide) simp_all
  have X: "X = binary64 \<bar>q\<bar>" by (simp add: X_def js_divide_def aq)
  have X0: "0 \<le> X" unfolding X by (rule binary64_nonneg) simp
  have x: "js_divide s c = sgn q * X"
    unfolding X js_divide_def q_def [symmetric] by (rule binary64_sgn)
  have v_cases: "v = of_nat N / 10 \<and> 0 \<le> q \<or> v = - (of_nat N / 10) \<and> q < 0"
  proof (cases "0 \<le> q")
    case True
    then have "0 \<le> sgn q * X" using X0 by (simp add: sgn_if)
    then have "v = of_nat (toFixed1_n (sgn q * X)) / 10"
      unfolding v_def x by (rule decimal_value_toFixed1)
    moreover have "toFixed1_n (sgn q * X) = N"
    proof (cases "q = 0")
      case True
      then have "X = 0" by (simp add: X binary64_def)
      then show ?thesis by (simp add: N_def)
    next
      case False
      then show ?thesis unfolding N_def by (rule toFixed1_n_abs)
    qed
    ultimately show ?thesis using True by simp
  next
    case False
    then have q: "q < 0" by simp
    then have n: "toFixed1_n (sgn q * X) = N" unfolding N_def by (intro toFixed1_n_abs) simp
    show ?thesis
    proof (cases "X = 0")
      case True
      then have "N = 0" by (simp add: N_def toFixed1_n_def)
      moreover have "v = of_nat (toFixed1_n (sgn q * X)) / 10"
        unfolding v_def x using True by (intro decimal_value_toFixed1) simp
      ultimately show ?thesis using q n by simp
    next
      case False
      with X0 q have "sgn q * X < 0" by (simp add: sgn_if)
      then have "v = - (of_nat (toFixed1_n (sgn q * X)) / 10)"
        unfolding v_def x by (rule decimal_value_toFixed1_neg)
      then show ?thesis using q n by simp
    qed
  qed
  have tenth: "of_int \<lfloor>v * 10\<rfloor> = v * 10"
  proof -
    have "v * 10 = of_int (int N) \<or> v * 10 = of_int (- int N)" using v_cases by auto
    then show ?thesis by (metis of_int_floor_cancel Ints_of_int)
  qed
  have "\<bar>v - q\<bar> \<le> 1 / 20" using v_cases near by (auto simp: abs_if split: if_splits)
  with tenth show ?thesis by (simp add: rounded_to_1_decimal_def v_def q_def)
qed

lemma round_half_even_below:
  "of_int n \<le> y \<Longrightarrow> y < of_int n + 1 / 2 \<Longrightarrow> round_half_even y = n"
proof -
  assume "of_int n \<le> y" and h: "y < of_int n + 1 / 2"
  then have "\<lfloor>y\<rfloor> = n" by (intro floor_unique) simp_all
  with h show ?thesis by (simp add: round_half_even_def Let_def)
qed

lemma toFixed1_n_eq:
  "of_nat n \<le> \<bar>x\<bar> * 10 + 1 / 2 \<Longrightarrow> \<bar>x\<bar> * 10 + 1 / 2 < of_nat n + 1 \<Longrightarrow> toFixed1_n x = n"
proof -
  assume "of_nat n \<le> \<bar>x\<bar> * 10 + 1 / 2" and "\<bar>x\<bar> * 10 + 1 / 2 < of_nat n + 1"
  then have "\<lfloor>\<bar>x\<bar> * 10 + 1 / 2\<rfloor> = int n" by (intro floor_unique) simp_all
  then show ?thesis by (simp add: toFixed1_n_def)
qed

lemma js_divide_12_3: "js_divide 12 3 = 4"
proof -
  have "ilog2 4 = 2" by (rule ilog2_unique) (simp_all add: pow2_def)
  moreover have "round_half_even 4503599627370496 = 4503599627370496"
    by (rule round_half_even_below) simp_all
  ultimately show ?thesis by (simp add: js_divide_def binary64_def Let_def pow2_def)
qed

lemma js_divide_1_4: "js_divide 1 4 = 1 / 4"
proof -
  have "ilog2 (1 / 4) = - 2" by (rule ilog2_unique) (simp_all add: pow2_def)
  moreover have "round_half_even 4503599627370496 = 4503599627370496"
    by (rule round_half_even_below) simp_all
  ultimately show ?thesis by (simp add: js_divide_def binary64_def Let_def pow2_def)
qed

lemma js_divide_7_20: "js_divide 7 20 = 6305039478318694 / 2 ^ 54"
proof -
  have "ilog2 (7 / 20) = - 2" by (rule ilog2_unique) (simp_all add: pow2_def)
  moreover have "round_half_even (31525197391593472 / 5) = 6305039478318694"
    by (rule round_half_even_below) simp_all
  ultimately show ?thesis by (simp add: js_divide_def binary64_def Let_def pow2_def)
qed

section \<open>Round trips and reloads\<close>

lemma send_Applied:
  "verdict srv q = Applied \<Longrightarrow> apply_request srv q (store w) = Some s \<Longrightarrow>
   send srv q w = (Ok, w\<lparr>requests := requests w @ [q], store := s\<rparr>)"
  by (simp add: send_def Let_def)

lemma send_Refused:
  "verdict srv q = Refused \<Longrightarrow> send srv q w = (Error, w\<lparr>requests := requests w @ [q]\<rparr>)"
  by (simp add: send_def Let_def)

lemma send_requests: "requests (snd (send srv q w)) = requests w @ [q]"
  by (simp add: send_def Let_def split: verdict.splits option.splits)

lemma send_console: "console (snd (send srv q w)) = console w"
  by (simp add: send_def Let_def split: verdict.splits option.splits)

lemma send_read:
  "\<not> is_write q \<Longrightarrow> store (snd (send srv q w)) = store w"
  by (cases q) (simp_all add: send_def Let_def split: verdict.splits option.splits)

lemma loadIdeas_world:
  "store (snd (loadIdeas srv (st, w))) = store w \<and>
   requests (snd (loadIdeas srv (st, w))) = requests w @ [SelectGameIdeas]"
  by (simp add: loadIdeas_def send_def Let_def console_error_def split: verdict.splits)

lemma loadProjects_world:
  "store (snd (loadProjects srv (st, w))) = store w \<and>
   requests (snd (loadProjects srv (st, w))) = requests w @ [SelectProjects] \<and>
   console (snd (loadProjects srv (st, w))) =
     console w @ (if verdict srv SelectProjects = Refused then [''Error loading projects:''] else [])"
  by (simp add: loadProjects_def send_def Let_def console_error_def split: verdict.splits)

lemma find_map_upvotes:
  "find (\<lambda>r. idea_id r = i)
     (map (\<lambda>r. if idea_id r = i then r\<lparr>idea_upvotes := n\<rparr> else r) xs) =
   map_option (\<lambda>r. r\<lparr>idea_upvotes := n\<rparr>) (find (\<lambda>r. idea_id r = i) xs)"
  by (induction xs) auto


lemma handleUpvote_Applied:
  assumes "verdict srv (UpdateIdeaUpvotes i (c + 1)) = Applied"
  shows "requests (snd (handleUpvote srv user i c (st, w))) =
           requests w @ [UpdateIdeaUpvotes i (c + 1), SelectGameIdeas]"
    and "stored_idea (store (snd (handleUpvote srv user i c (st, w)))) i =
           map_option (\<lambda>r. r\<lparr>idea_upvotes := c + 1\<rparr>) (stored_idea (store w) i)"
  using assms
  by (simp_all add: handleUpvote_def send_Applied loadIdeas_world stored_idea_def
      find_map_upvotes)

lemma handleFeedbackSubmit_Refused:
  assumes "user = Some u" and "selectedProject st = Some sp" and "sp \<noteq> []"
    and "fb = \<lparr>feedback_project_id = sp, feedback_user_id = user_id u,
                feedback_content = feedbackText st, feedback_rating = rating st\<rparr>"
    and "verdict srv (InsertFeedback fb) = Refused"
  shows "handleFeedbackSubmit srv user (st, w) =
           (st, console_error ''Error submitting feedback:'' (w\<lparr>requests := requests w @ [InsertFeedback fb]\<rparr>))"
  using assms by (simp add: handleFeedbackSubmit_def truthy_def send_Refused)

lemma handleFeedbackSubmit_Applied:
  assumes "user = Some u" and "selectedProject st = Some sp" and "sp \<noteq> []"
    and "fb = \<lparr>feedback_project_id = sp, feedback_user_id = user_id u,
                feedback_content = feedbackText st, feedback_rating = rating st\<rparr>"
    and "verdict srv (InsertFeedback fb) = Applied"
  shows "handleFeedbackSubmit srv user (st, w) =
           loadProjects srv
             (st\<lparr>feedbackText := [], rating := 5, selectedProject := None\<rparr>,
              case find (\<lambda>p. project_id p = sp) (projects st) of
                None \<Rightarrow>
                  w\<lparr>requests := requests w @ [InsertFeedback fb],
                     store := (store w)\<lparr>project_feedback_table :=
                                project_feedback_table (store w) @ [fb]\<rparr>\<rparr>
              | Some p \<Rightarrow>
                  snd (send srv
                    (UpdateRating sp (rating_sum p + rating st) (rating_count p + 1))
                    (w\<lparr>requests := requests w @ [InsertFeedback fb],
                       store := (store w)\<lparr>project_feedback_table :=
                                  project_feedback_table (store w) @ [fb]\<rparr>\<rparr>)))"
  using assms(1-3,5) unfolding assms(4)
  by (simp add: handleFeedbackSubmit_def truthy_def send_Applied Let_def)

lemma loadPortfolioItems_world:
  "portfolio_uploads (store (snd (loadPortfolioItems srv user (st, w)))) =
     portfolio_uploads (store w) \<and>
   portfolio_items_table (store (snd (loadPortfolioItems srv user (st, w)))) =
     portfolio_items_table (store w)"
  by (simp add: loadPortfolioItems_def send_def Let_def console_error_def
      split: option.splits verdict.splits)

section \<open>File classification\<close>

lemma getFileType_examples:
  "getFileType ''photo.PNG'' = Image \<and> getFileType ''doc.pdf'' = Pdf \<and>
   getFileType ''notes'' = Link \<and> getFileType ''readme.TXT'' = Link"
  by (simp add: getFileType_def pop_def toLowerCase_def toLowerCase_char_def)

text \<open>
  Claim C10 (classify maps a name with an empty or absent extension to Link). The code
  takes the text after the last point, and the whole name when there is no point: a name
  without any point that is itself one of the listed words is classified by that word. The
  name \<open>pdf\<close> has no extension and is classified Pdf; the name \<open>PNG\<close> has none and is
  classified Image.
\<close>

theorem getFileType_dotless_name:
  "CHR ''.'' \<notin> set ''pdf'' \<and> getFileType ''pdf'' = Pdf \<and>
   CHR ''.'' \<notin> set ''PNG'' \<and> getFileType ''PNG'' = Image"
  by (simp add: getFileType_def pop_def toLowerCase_def toLowerCase_char_def)

section \<open>The average rating\<close>

text \<open>
  Examples: 12 / 3 prints as \<open>4.0\<close>. Of the two exact ties, 1 / 4 is a binary fraction
  and prints as \<open>0.3\<close>, while 7 / 20 is not: its binary64 value lies below 0.35 and it
  prints as \<open>0.3\<close> as well.
\<close>

lemma getAverageRating_examples:
  "getAverageRating (sample_project\<lparr>rating_sum := 12, rating_count := 3\<rparr>) = String ''4.0'' \<and>
   getAverageRating (sample_project\<lparr>rating_sum := 1, rating_count := 4\<rparr>) = String ''0.3'' \<and>
   getAverageRating (sample_project\<lparr>rating_sum := 7, rating_count := 20\<rparr>) = String ''0.3'' \<and>
   getAverageRating (sample_project\<lparr>rating_sum := 5, rating_count := 0\<rparr>) = Number 0"
proof -
  have a: "toFixed1_n 4 = 40" by (rule toFixed1_n_eq) simp_all
  have b: "toFixed1_n (1 / 4) = 3" by (rule toFixed1_n_eq) simp_all
  have c: "toFixed1_n (6305039478318694 / 2 ^ 54) = 3" by (rule toFixed1_n_eq) simp_all
  have "toFixed1 (js_divide 12 3) = toFixed1 4" by (simp only: js_divide_12_3)
  also have "\<dots> = ''4.0''" by (simp add: toFixed1_def a digits_small)
  finally have x: "toFixed1 (js_divide 12 3) = ''4.0''" .
  have "toFixed1 (js_divide 1 4) = toFixed1 (1 / 4)" by (simp only: js_divide_1_4)
  also have "\<dots> = ''0.3''" by (simp add: toFixed1_def b digits_small)
  finally have y: "toFixed1 (js_divide 1 4) = ''0.3''" .
  have "toFixed1 (js_divide 7 20) = toFixed1 (6305039478318694 / 2 ^ 54)"
    by (simp only: js_divide_7_20)
  also have "\<dots> = ''0.3''" by (simp only: toFixed1_def c) (simp add: digits_small)
  finally have z: "toFixed1 (js_divide 7 20) = ''0.3''" .
  show ?thesis by (simp add: getAverageRating_def x y z)
qed

lemma getAverageRating_text:
  assumes "rating_count p \<noteq> 0" and "\<bar>rating_sum p\<bar> \<le> 2 ^ 40"
  shows "\<exists>t. getAverageRating p = String t \<and>
           rounded_to_1_decimal (of_int (rating_sum p) / of_int (rating_count p))
             (decimal_value t)"
  using assms toFixed1_js_divide_rounded [of "rating_sum p" "rating_count p"]
  by (simp add: getAverageRating_def)

text \<open>
  Claim C9 (averageRating). \<open>getAverageRating\<close> is a function of the project alone. It
  returns the number 0 when \<open>rating_count\<close> is 0, whatever \<open>rating_sum\<close> is. Otherwise, for
  counters of the 32-bit integer columns, it returns a text with one decimal whose value is
  \<open>rating_sum / rating_count\<close> rounded to 1 decimal: no number with one decimal is nearer to
  the exact quotient.
\<close>

theorem getAverageRating_rounded:
  "(rating_count p = 0 \<longrightarrow> getAverageRating p = Number 0) \<and>
   (rating_count p \<noteq> 0 \<and> int32 (rating_sum p) \<and> int32 (rating_count p) \<longrightarrow>
      (\<exists>t. getAverageRating p = String t \<and>
           rounded_to_1_decimal (of_int (rating_sum p) / of_int (rating_count p))
             (decimal_value t)))"
proof (intro conjI impI)
  assume "rating_count p = 0"
  then show "getAverageRating p = Number 0" by (simp add: getAverageRating_def)
next
  assume "rating_count p \<noteq> 0 \<and> int32 (rating_sum p) \<and> int32 (rating_count p)"
  then show "\<exists>t. getAverageRating p = String t \<and>
      rounded_to_1_decimal (of_int (rating_sum p) / of_int (rating_count p)) (decimal_value t)"
    by (intro getAverageRating_text) (auto simp: int32_def)
qed

theorem getAverageRating_rounded_witness:
  "rating_count (sample_project\<lparr>rating_count := 0\<rparr>) = 0 \<and>
   getAverageRating (sample_project\<lparr>rating_count := 0\<rparr>) = Number 0 \<and>
   rating_count sample_project \<noteq> 0 \<and> int32 (rating_sum sample_project) \<and>
   int32 (rating_count sample_project) \<and>
   (\<exists>t. getAverageRating sample_project = String t \<and>
        rounded_to_1_decimal (of_int (rating_sum sample_project) /
            of_int (rating_count sample_project)) (decimal_value t))"
  using getAverageRating_rounded [of sample_project]
    getAverageRating_rounded [of "sample_project\<lparr>rating_count := 0\<rparr>"]
  by (simp add: sample_project_def int32_def)

section \<open>Upvotes\<close>

text \<open>
  Claim C6 (incrementUpvote). For every item id and every last-known count \<open>c\<close> (a value
  of the 32-bit column), \<open>handleUpvote\<close> issues the update that sets \<open>upvotes\<close> to
  \<open>c + 1\<close> and, when the repository carries it out, the stored count of the item is
  \<open>c + 1\<close> whatever it was before. Two increments both issued from the same base \<open>b\<close> each write \<open>b + 1\<close>: after both
  the stored count is \<open>b + 1\<close>, one less than \<open>b + 2\<close>.
\<close>

theorem handleUpvote_writes_last_known_plus_one:
  assumes "int32 c" and "int32 b"
    and "verdict srv (UpdateIdeaUpvotes i (c + 1)) = Applied"
    and "verdict srv (UpdateIdeaUpvotes i (b + 1)) = Applied"
    and "map_option idea_upvotes (stored_idea (store w) i) = Some b"
  shows "issued w (snd (handleUpvote srv user i c (st, w))) =
           [UpdateIdeaUpvotes i (c + 1), SelectGameIdeas] \<and>
         map_option idea_upvotes (stored_idea (store (snd (handleUpvote srv user i c (st, w)))) i) =
           Some (c + 1) \<and>
         map_option idea_upvotes
           (stored_idea
              (store (snd (handleUpvote srv user' i b
                 (st', snd (handleUpvote srv user i b (st, w)))))) i) = Some (b + 1) \<and>
         b + 1 < b + 2"
  using assms(5) handleUpvote_Applied [OF assms(3)] handleUpvote_Applied [OF assms(4)]
  by (auto simp: issued_def)

theorem handleUpvote_writes_last_known_plus_one_witness:
  "int32 10 \<and> int32 3 \<and>
   verdict accepting (UpdateIdeaUpvotes ''idea-1'' (10 + 1)) = Applied \<and>
   verdict accepting (UpdateIdeaUpvotes ''idea-1'' (3 + 1)) = Applied \<and>
   map_option idea_upvotes
     (stored_idea (store (new_world (empty_store\<lparr>game_ideas_table := [sample_idea]\<rparr>))) ''idea-1'') =
     Some 3 \<and>
   issued (new_world (empty_store\<lparr>game_ideas_table := [sample_idea]\<rparr>))
     (snd (handleUpvote accepting (Some (User ''u2'')) ''idea-1'' 10
        (IdeasHub_initial, new_world (empty_store\<lparr>game_ideas_table := [sample_idea]\<rparr>)))) =
     [UpdateIdeaUpvotes ''idea-1'' 11, SelectGameIdeas] \<and>
   map_option idea_upvotes
     (stored_idea
        (store (snd (handleUpvote accepting (Some (User ''u2'')) ''idea-1'' 10
           (IdeasHub_initial, new_world (empty_store\<lparr>game_ideas_table := [sample_idea]\<rparr>)))))
        ''idea-1'') = Some 11 \<and>
   map_option idea_upvotes
     (stored_idea
        (store (snd (handleUpvote accepting (Some (User ''u2'')) ''idea-1'' 3
           (IdeasHub_initial,
            snd (handleUpvote accepting (Some (User ''u2'')) ''idea-1'' 3
              (IdeasHub_initial,
               new_world (empty_store\<lparr>game_ideas_table := [sample_idea]\<rparr>)))))))
        ''idea-1'') = Some 4"
  using handleUpvote_writes_last_known_plus_one
    [where c = 10 and b = 3 and srv = accepting and i = "''idea-1''"
       and w = "new_world (empty_store\<lparr>game_ideas_table := [sample_idea]\<rparr>)"
       and user = "Some (User ''u2'')" and st = IdeasHub_initial
       and user' = "Some (User ''u2'')" and st' = IdeasHub_initial]
  by (simp add: accepting_def new_world_def empty_store_def sample_idea_def stored_idea_def
      int32_def)

section \<open>Submitting a rating\<close>

text \<open>
  Three ratings 5, 3 and 4 given in sequence on a project that starts at 0 and 0, each
  after the reload that follows the one before, leave \<open>rating_sum = 12\<close> and
  \<open>rating_count = 3\<close>.
\<close>

lemma three_ratings_in_sequence:
  "map (\<lambda>p. (rating_sum p, rating_count p))
     (projects_table (store (snd
        (submitRating accepting (Some (User ''u2'')) ''p1'' 4 ''c''
          (submitRating accepting (Some (User ''u2'')) ''p1'' 3 ''b''
            (submitRating accepting (Some (User ''u2'')) ''p1'' 5 ''a''
              (loadProjects accepting
                (CollaborationZone_initial,
                 new_world (empty_store
                   \<lparr>projects_table := [sample_project\<lparr>rating_sum := 0, rating_count := 0\<rparr>]\<rparr>))))))))) =
   [(12, 3)]"
  by (simp add: submitRating_def handleFeedbackSubmit_def loadProjects_def truthy_def send_def
      Let_def accepting_def CollaborationZone_initial_def new_world_def empty_store_def
      sample_project_def)

text \<open>
  Claim C8 (where submitRating reads the aggregate). With a user, a selected project and
  a feedback row the repository accepts, \<open>handleFeedbackSubmit\<close> takes \<open>rating_sum\<close> and
  \<open>rating_count\<close> from the component's own fetched \<open>projects\<close> list, whatever the
  repository holds: when the list has the project, the update carries the fetched values
  plus the new rating. When the list does not have the project, the feedback row is
  inserted, no update of the project is issued, the \<open>projects\<close> table is left as it was,
  and nothing is written to the console (the reload succeeding): no error is reported.
\<close>

theorem handleFeedbackSubmit_reads_fetched_list:
  assumes "user = Some u" and "selectedProject st = Some sp" and "sp \<noteq> []"
    and "fb = \<lparr>feedback_project_id = sp, feedback_user_id = user_id u,
                feedback_content = feedbackText st, feedback_rating = rating st\<rparr>"
    and "verdict srv (InsertFeedback fb) = Applied"
    and "verdict srv SelectProjects \<noteq> Refused"
  shows "(\<forall>p. find (\<lambda>p. project_id p = sp) (projects st) = Some p \<longrightarrow>
            issued w (snd (handleFeedbackSubmit srv user (st, w))) =
              [InsertFeedback fb,
               UpdateRating sp (rating_sum p + rating st) (rating_count p + 1),
               SelectProjects]) \<and>
         (find (\<lambda>p. project_id p = sp) (projects st) = None \<longrightarrow>
            issued w (snd (handleFeedbackSubmit srv user (st, w))) =
              [InsertFeedback fb, SelectProjects] \<and>
            project_feedback_table (store (snd (handleFeedbackSubmit srv user (st, w)))) =
              project_feedback_table (store w) @ [fb] \<and>
            projects_table (store (snd (handleFeedbackSubmit srv user (st, w)))) =
              projects_table (store w) \<and>
            console (snd (handleFeedbackSubmit srv user (st, w))) = console w)"
  using assms(6)
  by (simp add: handleFeedbackSubmit_Applied [OF assms(1-5)] loadProjects_world issued_def
      send_requests)

theorem handleFeedbackSubmit_reads_fetched_list_witness:
  "issued project_world
     (snd (handleFeedbackSubmit accepting (Some (User ''u2''))
        (feedback_dialog [sample_project\<lparr>rating_sum := 3, rating_count := 1\<rparr>] 4,
         project_world))) =
     [InsertFeedback
        \<lparr>feedback_project_id = ''p1'', feedback_user_id = ''u2'', feedback_content = ''Nice'',
         feedback_rating = 4\<rparr>,
      UpdateRating ''p1'' 7 2, SelectProjects] \<and>
   issued project_world
     (snd (handleFeedbackSubmit accepting (Some (User ''u2''))
        (feedback_dialog [] 4, project_world))) =
     [InsertFeedback
        \<lparr>feedback_project_id = ''p1'', feedback_user_id = ''u2'', feedback_content = ''Nice'',
         feedback_rating = 4\<rparr>,
      SelectProjects] \<and>
   project_feedback_table
     (store (snd (handleFeedbackSubmit accepting (Some (User ''u2''))
        (feedback_dialog [] 4, project_world)))) =
     [\<lparr>feedback_project_id = ''p1'', feedback_user_id = ''u2'', feedback_content = ''Nice'',
       feedback_rating = 4\<rparr>] \<and>
   projects_table
     (store (snd (handleFeedbackSubmit accepting (Some (User ''u2''))
        (feedback_dialog [] 4, project_world)))) = [sample_project] \<and>
   console (snd (handleFeedbackSubmit accepting (Some (User ''u2''))
        (feedback_dialog [] 4, project_world))) = []"
  using handleFeedbackSubmit_reads_fetched_list
    [where user = "Some (User ''u2'')" and u = "User ''u2''" and sp = "''p1''"
       and st = "feedback_dialog [sample_project\<lparr>rating_sum := 3, rating_count := 1\<rparr>] 4"
       and fb = "\<lparr>feedback_project_id = ''p1'', feedback_user_id = ''u2'',
                  feedback_content = ''Nice'', feedback_rating = 4\<rparr>"
       and srv = accepting and w = project_world]
    handleFeedbackSubmit_reads_fetched_list
    [where user = "Some (User ''u2'')" and u = "User ''u2''" and sp = "''p1''"
       and st = "feedback_dialog [] 4"
       and fb = "\<lparr>feedback_project_id = ''p1'', feedback_user_id = ''u2'',
                  feedback_content = ''Nice'', feedback_rating = 4\<rparr>"
       and srv = accepting and w = project_world]
  by (simp add: feedback_dialog_def CollaborationZone_initial_def accepting_def
      project_world_def new_world_def empty_store_def sample_project_def)




text \<open>
  Claim C3 (a rating outside 1..5), as amended. \<open>handleFeedbackSubmit\<close> does not look at
  the rating value and has no validation error; the rating control of the dialog only
  offers 1 to 5. For every rating outside 1..5 that reaches it, with a user and a selected
  project, it issues the insert of the feedback row carrying that rating. A repository that
  enforces the schema's check on \<open>rating\<close> refuses the insert; then no update of
  \<open>rating_sum\<close> or \<open>rating_count\<close> is issued, the store and the component state are left as they
  were, and the error is written to the console.
\<close>

theorem handleFeedbackSubmit_no_validation:
  assumes "user = Some u" and "selectedProject st = Some sp" and "sp \<noteq> []"
    and "fb = \<lparr>feedback_project_id = sp, feedback_user_id = user_id u,
                feedback_content = feedbackText st, feedback_rating = rating st\<rparr>"
    and "rating st < 1 \<or> 5 < rating st"
    and "verdict srv (InsertFeedback fb) = (if rating_check fb then Applied else Refused)"
  shows "issued w (snd (handleFeedbackSubmit srv user (st, w))) = [InsertFeedback fb] \<and>
         store (snd (handleFeedbackSubmit srv user (st, w))) = store w \<and>
         console (snd (handleFeedbackSubmit srv user (st, w))) =
           console w @ [''Error submitting feedback:''] \<and>
         fst (handleFeedbackSubmit srv user (st, w)) = st"
proof -
  have "\<not> rating_check fb" using assms(4,5) by (auto simp: rating_check_def)
  with assms(6) have "verdict srv (InsertFeedback fb) = Refused" by simp
  from handleFeedbackSubmit_Refused [OF assms(1-4) this] show ?thesis
    by (simp add: issued_def console_error_def)
qed

theorem handleFeedbackSubmit_no_validation_witness:
  "issued project_world
     (snd (handleFeedbackSubmit schema_checked (Some (User ''u2''))
        (feedback_dialog [sample_project] 7, project_world))) =
     [InsertFeedback
        \<lparr>feedback_project_id = ''p1'', feedback_user_id = ''u2'', feedback_content = ''Nice'',
         feedback_rating = 7\<rparr>] \<and>
   store (snd (handleFeedbackSubmit schema_checked (Some (User ''u2''))
        (feedback_dialog [sample_project] 7, project_world))) = store project_world \<and>
   console (snd (handleFeedbackSubmit schema_checked (Some (User ''u2''))
        (feedback_dialog [sample_project] 7, project_world))) =
     console project_world @ [''Error submitting feedback:''] \<and>
   fst (handleFeedbackSubmit schema_checked (Some (User ''u2''))
        (feedback_dialog [sample_project] 7, project_world)) = feedback_dialog [sample_project] 7"
  by (rule handleFeedbackSubmit_no_validation [where u = "User ''u2''" and sp = "''p1''"])
    (simp_all add: feedback_dialog_def CollaborationZone_initial_def schema_checked_def
      rating_check_def)

text \<open>
  The claim as stated fails: for rating 7 the insert of the feedback row is issued, even to
  a repository that enforces the check; a repository without the check carries out both
  writes, adding 7 to \<open>rating_sum\<close>.
\<close>

theorem handleFeedbackSubmit_out_of_range_counterexample:
  "InsertFeedback
     \<lparr>feedback_project_id = ''p1'', feedback_user_id = ''u2'', feedback_content = ''Nice'',
      feedback_rating = 7\<rparr>
     \<in> set (issued project_world
          (snd (handleFeedbackSubmit schema_checked (Some (User ''u2''))
             (feedback_dialog [sample_project] 7, project_world)))) \<and>
   issued project_world
     (snd (handleFeedbackSubmit accepting (Some (User ''u2''))
        (feedback_dialog [sample_project] 7, project_world))) =
     [InsertFeedback
        \<lparr>feedback_project_id = ''p1'', feedback_user_id = ''u2'', feedback_content = ''Nice'',
         feedback_rating = 7\<rparr>,
      UpdateRating ''p1'' 15 3, SelectProjects]"
  by (simp add: handleFeedbackSubmit_def truthy_def send_def Let_def loadProjects_def
      console_error_def issued_def feedback_dialog_def CollaborationZone_initial_def
      schema_checked_def accepting_def rating_check_def project_world_def new_world_def
      empty_store_def sample_project_def)

section \<open>The portfolio attachment\<close>

lemma handleDeletePortfolioItem_keeps_objects:
  "portfolio_uploads (store (snd (handleDeletePortfolioItem srv user itemId (st, w)))) =
     portfolio_uploads (store w)"
  by (simp add: handleDeletePortfolioItem_def send_def Let_def console_error_def
      loadPortfolioItems_world split: verdict.splits)

text \<open>
  Claim C4 (deleting a portfolio item deletes the stored object of its attachment).
  \<open>handleDeletePortfolioItem\<close> deletes the row only: for the sample item, which holds an
  image attachment stored under \<open>u1/u1-1700000000000.png\<close>, the only write issued is the
  delete of the row, and the object is still in the bucket afterwards.
\<close>

theorem handleDeletePortfolioItem_leaves_object:
  "file_type (item_fields sample_item) = Some ''image'' \<and>
   issued portfolio_world
     (snd (handleDeletePortfolioItem accepting (Some (User ''u1'')) ''item-1''
        (Profile_initial\<lparr>portfolioItems := [sample_item]\<rparr>, portfolio_world))) =
     [DeletePortfolioItem ''item-1'', SelectPortfolioItems ''u1''] \<and>
   portfolio_items_table
     (store (snd (handleDeletePortfolioItem accepting (Some (User ''u1'')) ''item-1''
        (Profile_initial\<lparr>portfolioItems := [sample_item]\<rparr>, portfolio_world)))) = [] \<and>
   portfolio_uploads
     (store (snd (handleDeletePortfolioItem accepting (Some (User ''u1'')) ''item-1''
        (Profile_initial\<lparr>portfolioItems := [sample_item]\<rparr>, portfolio_world)))) =
     [''u1/u1-1700000000000.png'']"
  by (simp add: handleDeletePortfolioItem_def loadPortfolioItems_def send_def Let_def
      issued_def accepting_def portfolio_world_def new_world_def empty_store_def
      sample_item_def)

lemma delete_key_is_stored_key_iff:
  "delete_filePath userId fileName = upload_filePath userId now fileName \<longleftrightarrow>
   fileName = upload_fileName userId now fileName"
  by (simp add: delete_filePath_def upload_filePath_def)

text \<open>
  Claim C2 (attach, then detach deletes the stored key). User \<open>u1\<close> attaches \<open>art.png\<close> at
  clock reading 1700000000000 and then clears the attachment. The file is stored under
  \<open>u1/u1-1700000000000.png\<close>; the one removal issued names \<open>u1/art.png\<close>, built from the
  original file name that the upload returns, and the stored object stays in the bucket.
\<close>

theorem attach_then_detach_keys:
  "issued (new_world empty_store)
     (snd (handleClearFile accepting (Some (User ''u1''))
        (handleFileUpload accepting (Some (User ''u1'')) 1700000000000
           (Some \<lparr>name = ''art.png''\<rparr>) Image (Profile_initial, new_world empty_store)))) =
     [StorageUpload ''u1/u1-1700000000000.png'', StorageRemove [''u1/art.png'']] \<and>
   portfolio_uploads
     (store (snd (handleClearFile accepting (Some (User ''u1''))
        (handleFileUpload accepting (Some (User ''u1'')) 1700000000000
           (Some \<lparr>name = ''art.png''\<rparr>) Image (Profile_initial, new_world empty_store))))) =
     [''u1/u1-1700000000000.png'']"
  by (simp add: handleClearFile_def handleFileUpload_def uploadPortfolioFile_def
      deletePortfolioFile_def upload_filePath_def upload_fileName_def delete_filePath_def
      interpolate_def pop_def digits.simps truthy_def send_def Let_def issued_def
      accepting_def Profile_initial_def new_world_def empty_store_def)

text \<open>
  Claim C7 (the kind of an uploaded attachment), as amended. For every uploaded file, the
  kind stored on the resulting attachment is the kind the upload control passes to
  \<open>handleFileUpload\<close> (Image from the image control, Pdf from the PDF control), whatever the
  extension of the file is; the name stored is the file's own name and the URL the public
  URL of the key it was stored under.
\<close>

theorem handleFileUpload_declared_kind:
  assumes "user = Some u" and "picked = Some f"
    and "verdict srv (StorageUpload (upload_filePath (user_id u) now (name f))) = Applied"
    and "upload_filePath (user_id u) now (name f) \<notin> set (portfolio_uploads (store w))"
  shows "file_type (portfolioFormData
           (fst (handleFileUpload srv user now picked fileType (st, w)))) =
           Some (file_type_text fileType) \<and>
         file_name (portfolioFormData
           (fst (handleFileUpload srv user now picked fileType (st, w)))) = Some (name f) \<and>
         file_url (portfolioFormData
           (fst (handleFileUpload srv user now picked fileType (st, w)))) =
           Some (publicUrl srv (upload_filePath (user_id u) now (name f))) \<and>
         issued w (snd (handleFileUpload srv user now picked fileType (st, w))) =
           [StorageUpload (upload_filePath (user_id u) now (name f))]"
  using assms
  by (simp add: handleFileUpload_def uploadPortfolioFile_def send_def Let_def issued_def)

theorem handleFileUpload_declared_kind_witness:
  "file_type (portfolioFormData
     (fst (handleFileUpload accepting (Some (User ''u1'')) 1700000000000
        (Some \<lparr>name = ''doc.pdf''\<rparr>) Image (Profile_initial, new_world empty_store)))) =
     Some (file_type_text Image) \<and>
   file_name (portfolioFormData
     (fst (handleFileUpload accepting (Some (User ''u1'')) 1700000000000
        (Some \<lparr>name = ''doc.pdf''\<rparr>) Image (Profile_initial, new_world empty_store)))) =
     Some (name \<lparr>name = ''doc.pdf''\<rparr>) \<and>
   file_url (portfolioFormData
     (fst (handleFileUpload accepting (Some (User ''u1'')) 1700000000000
        (Some \<lparr>name = ''doc.pdf''\<rparr>) Image (Profile_initial, new_world empty_store)))) =
     Some (publicUrl accepting
       (upload_filePath (user_id (User ''u1'')) 1700000000000 (name \<lparr>name = ''doc.pdf''\<rparr>))) \<and>
   issued (new_world empty_store)
     (snd (handleFileUpload accepting (Some (User ''u1'')) 1700000000000
        (Some \<lparr>name = ''doc.pdf''\<rparr>) Image (Profile_initial, new_world empty_store))) =
     [StorageUpload
        (upload_filePath (user_id (User ''u1'')) 1700000000000 (name \<lparr>name = ''doc.pdf''\<rparr>))]"
  by (rule handleFileUpload_declared_kind)
    (simp_all add: accepting_def new_world_def empty_store_def)

text \<open>
  The claim as stated fails: \<open>photo.bmp\<close> picked in the image control is stored with kind
  \<open>image\<close>, while its extension classifies as \<open>link\<close>; \<open>doc.pdf\<close> picked in the image
  control is stored with kind \<open>image\<close>, while its extension classifies as \<open>pdf\<close>.
\<close>

theorem handleFileUpload_kind_counterexample:
  "file_type (portfolioFormData (fst
     (handleFileUpload accepting (Some (User ''u1'')) 1700000000000
        (Some \<lparr>name = ''photo.bmp''\<rparr>) Image (Profile_initial, new_world empty_store)))) =
     Some ''image'' \<and>
   file_type_text (getFileType ''photo.bmp'') = ''link'' \<and>
   file_type (portfolioFormData (fst
     (handleFileUpload accepting (Some (User ''u1'')) 1700000000000
        (Some \<lparr>name = ''doc.pdf''\<rparr>) Image (Profile_initial, new_world empty_store)))) =
     Some ''image'' \<and>
   file_type_text (getFileType ''doc.pdf'') = ''pdf''"
  by (simp add: handleFileUpload_def uploadPortfolioFile_def send_def Let_def
      accepting_def Profile_initial_def new_world_def empty_store_def
      getFileType_def pop_def toLowerCase_def toLowerCase_char_def)

section \<open>Handlers when no user is signed in\<close>

text \<open>
  Claim C5 (write paths without a user), as amended. With no user present, the handlers
  that act under the user's identity are no-ops: creating an idea, a post, an event or a
  project, submitting feedback, updating the profile, saving a portfolio item and uploading
  a file issue no request and leave the component state and the world as they were, and
  clearing an attachment issues no request. The upvote handlers and the delete of a
  portfolio item do not look at the user and issue their write also when there is none;
  the application shell shows only the sign-in screen when no user is present.
\<close>

theorem write_paths_without_user:
  "handleSubmit srv None (ideas_st, w) = (ideas_st, w) \<and>
   media_handleSubmit srv None (posts_st, w) = (posts_st, w) \<and>
   events_handleSubmit srv None (events_st, w) = (events_st, w) \<and>
   handleProjectSubmit srv None (zone_st, w) = (zone_st, w) \<and>
   handleFeedbackSubmit srv None (zone_st, w) = (zone_st, w) \<and>
   handleProfileUpdate srv None (page_st, w) = (page_st, w) \<and>
   handlePortfolioSubmit srv None (page_st, w) = (page_st, w) \<and>
   handleFileUpload srv None now picked fileType (page_st, w) = (page_st, w) \<and>
   snd (handleClearFile srv None (page_st, w)) = w \<and>
   (\<exists>rest. issued w (snd (handleUpvote srv None ideaId c (ideas_st, w))) =
      UpdateIdeaUpvotes ideaId (c + 1) # rest) \<and>
   (\<exists>rest. issued w (snd (media_handleUpvote srv None postId c (posts_st, w))) =
      UpdatePostUpvotes postId (c + 1) # rest) \<and>
   issued w (snd (handleDeletePortfolioItem srv None itemId (page_st, w))) =
      [DeletePortfolioItem itemId] \<and>
   AppContent None False activeSection showProfile = AuthScreen"
proof -
  have up: "\<exists>rest. issued w (snd (handleUpvote srv None ideaId c (ideas_st, w))) =
      UpdateIdeaUpvotes ideaId (c + 1) # rest"
    by (simp add: handleUpvote_def loadIdeas_def send_def Let_def issued_def console_error_def
        split: verdict.splits option.splits)
  have mup: "\<exists>rest. issued w (snd (media_handleUpvote srv None postId c (posts_st, w))) =
      UpdatePostUpvotes postId (c + 1) # rest"
    by (simp add: media_handleUpvote_def loadPosts_def send_def Let_def issued_def
        console_error_def split: verdict.splits option.splits)
  have del: "issued w (snd (handleDeletePortfolioItem srv None itemId (page_st, w))) =
      [DeletePortfolioItem itemId]"
    by (simp add: handleDeletePortfolioItem_def loadPortfolioItems_def send_def Let_def
        issued_def console_error_def split: verdict.splits option.splits)
  have guarded:
    "handleSubmit srv None (ideas_st, w) = (ideas_st, w)"
    "media_handleSubmit srv None (posts_st, w) = (posts_st, w)"
    "events_handleSubmit srv None (events_st, w) = (events_st, w)"
    "handleProjectSubmit srv None (zone_st, w) = (zone_st, w)"
    "handleFeedbackSubmit srv None (zone_st, w) = (zone_st, w)"
    "handleProfileUpdate srv None (page_st, w) = (page_st, w)"
    "handlePortfolioSubmit srv None (page_st, w) = (page_st, w)"
    "handleFileUpload srv None now picked fileType (page_st, w) = (page_st, w)"
    "snd (handleClearFile srv None (page_st, w)) = w"
    by (simp_all add: handleSubmit_def media_handleSubmit_def events_handleSubmit_def
        handleProjectSubmit_def handleFeedbackSubmit_def handleProfileUpdate_def
        handlePortfolioSubmit_def handleFileUpload_def handleClearFile_def Let_def
        split: option.splits)
  have "AppContent None False activeSection showProfile = AuthScreen"
    by (simp add: AppContent_def)
  with up mup del guarded show ?thesis by simp
qed

text \<open>
  The claim as stated fails: with no user, an upvote of the sample idea is issued and
  carried out (the stored count goes from 3 to 4), and so is the delete of the sample
  portfolio item.
\<close>

theorem handleUpvote_without_user_counterexample:
  "issued idea_world
     (snd (handleUpvote accepting None ''idea-1'' 3 (IdeasHub_initial, idea_world))) =
     [UpdateIdeaUpvotes ''idea-1'' 4, SelectGameIdeas] \<and>
   map idea_upvotes (game_ideas_table (store idea_world)) = [3] \<and>
   map idea_upvotes
     (game_ideas_table
        (store (snd (handleUpvote accepting None ''idea-1'' 3 (IdeasHub_initial, idea_world))))) =
     [4] \<and>
   issued portfolio_world
     (snd (handleDeletePortfolioItem accepting None ''item-1'' (Profile_initial, portfolio_world))) =
     [DeletePortfolioItem ''item-1''] \<and>
   portfolio_items_table
     (store (snd (handleDeletePortfolioItem accepting None ''item-1''
        (Profile_initial, portfolio_world)))) = []"
  by (simp add: handleUpvote_def loadIdeas_def handleDeletePortfolioItem_def
      loadPortfolioItems_def send_def Let_def issued_def accepting_def idea_world_def
      portfolio_world_def new_world_def empty_store_def sample_idea_def sample_item_def)

end
